theory Spec2Isabelle
  imports Complex_Main "HOL-Library.Multiset"
begin

section \<open>cover\_art\_hunter: the concurrent fetch pipeline\<close>

text \<open>
  A shallow embedding of \<^verbatim>\<open>src/cover_art_hunter/cover_art_hunter.py\<close>. Every
  coroutine of the source becomes a function that returns its outcome (a value, or the
  exception it raises) together with the trace of effects it performed: HTTP requests,
  sleeps of the retry decorator, log lines and file-system accesses. The network, the
  file system and the completion order of concurrently launched tasks are parameters
  of the model (the record \<open>world\<close>), so every theorem holds for every behaviour of
  the environment.

  JSON documents are modelled by records whose fields are the keys the source reads;
  a field is \<open>None\<close> when the key is absent, which is what \<^verbatim>\<open>.get(key, default)\<close>
  tests. What \<^verbatim>\<open>fetch_data\<close> returns is \<open>None\<close> for the empty dictionary \<^verbatim>\<open>{}\<close> of a
  rejected status, and \<open>Some v\<close> for the decoded body \<open>v\<close>, which is a JSON object or
  some other value (Python's \<^verbatim>\<open>None\<close> when the body is empty).

  The code cancels nothing: every task that is launched runs to its end, also when a
  sibling has raised, so the trace of a stage holds the effects of all its tasks, task
  by task in the order in which they complete (what the interpreter does to the tasks
  still running when an exception ends the program is not part of the functions). The
  tasks of the image stage test the
  disk twice: when they are launched (line 54), where they all see the disk as it was
  before the stage, and when their download has arrived (line 70), where they see what
  the tasks that completed before them have saved.

  What is left out: the progress bars (they report, and decide nothing); the text that
  an exception prints, which is its class name here; failures of \<^verbatim>\<open>os.makedirs\<close> and
  \<^verbatim>\<open>json.dump\<close> (events that succeed). Each album's pipeline reads the disk as the
  world has it.
\<close>

subsection \<open>Exceptions, outcomes and effects\<close>

datatype exn =
    ClientError              \<comment> \<open>aiohttp: connection refused or reset, DNS failure, timeout\<close>
  | ContentTypeError         \<comment> \<open>aiohttp: \<^verbatim>\<open>response.json()\<close> on a body that cannot be decoded\<close>
  | UnidentifiedImageError   \<comment> \<open>PIL: \<^verbatim>\<open>Image.open\<close> on bytes that are not an image\<close>
  | KeyError                 \<comment> \<open>subscript of a dictionary with a missing key\<close>
  | AttributeError           \<comment> \<open>\<^verbatim>\<open>.get\<close> of a value that is not a dictionary\<close>
  | OSError                  \<comment> \<open>PIL: \<^verbatim>\<open>image.save\<close> that cannot write the file\<close>
  | RetryError               \<comment> \<open>tenacity: raised after the last attempt when \<^verbatim>\<open>reraise\<close> is off\<close>

datatype 'a outcome = Returned 'a | Raised exn

datatype pval = PStr string | PInt int

type_synonym params = "(string \<times> pval) list"

datatype event =
    HttpGet string params    \<comment> \<open>\<^verbatim>\<open>session.get(url, params=params)\<close>\<close>
  | Sleep nat                \<comment> \<open>the retry decorator waits so many seconds\<close>
  | LogWarning string
  | LogError string
  | LogInfo string
  | PathExists string        \<comment> \<open>\<^verbatim>\<open>os.path.exists(path)\<close>\<close>
  | ImageOpen string         \<comment> \<open>\<^verbatim>\<open>Image.open(path)\<close> of a local file\<close>
  | ImageSave string         \<comment> \<open>\<^verbatim>\<open>image.save(path)\<close>\<close>
  | MakeDirs string          \<comment> \<open>\<^verbatim>\<open>os.makedirs(path, exist_ok=True)\<close>\<close>
  | WriteJson string         \<comment> \<open>\<^verbatim>\<open>json.dump\<close> into the named file\<close>

text \<open>
  One attempt of a GET: the connection fails, or a response arrives with a status and
  a body. The body is \<open>Some v\<close> when decoding it gives the value \<open>v\<close>, and \<open>None\<close>
  when decoding it raises (\<^verbatim>\<open>response.json()\<close> for the two query services,
  \<^verbatim>\<open>Image.open\<close> for an image URL). A session answers a request (URL and query
  parameters) at its \<open>n\<close>-th attempt, counted from 1 as tenacity counts.

  \<^verbatim>\<open>response.json()\<close> gives a JSON object, or a value that is not one: Python's
  \<^verbatim>\<open>None\<close> for an empty body, or a list, a string, a number.
\<close>

datatype 'a http_attempt = ConnectionFails | Responds nat "'a option"

datatype 'a json = NonObject | Object 'a

type_synonym 'a session = "string \<Rightarrow> params \<Rightarrow> nat \<Rightarrow> 'a http_attempt"

fun str_nat :: "nat \<Rightarrow> string" where
  "str_nat n =
     (if n < 10 then [char_of (48 + n)]
      else str_nat (n div 10) @ [char_of (48 + n mod 10)])"

declare str_nat.simps [simp del]

definition str_exn :: "exn \<Rightarrow> string" where
  "str_exn e =
     (case e of
        ClientError \<Rightarrow> ''ClientError''
      | ContentTypeError \<Rightarrow> ''ContentTypeError''
      | UnidentifiedImageError \<Rightarrow> ''UnidentifiedImageError''
      | KeyError \<Rightarrow> ''KeyError''
      | AttributeError \<Rightarrow> ''AttributeError''
      | OSError \<Rightarrow> ''OSError''
      | RetryError \<Rightarrow> ''RetryError'')"

subsection \<open>The retry decorator\<close>

text \<open>
  \<^verbatim>\<open>@retry(stop=stop_after_attempt(5), wait=wait_exponential(multiplier=1, min=1, max=60),
  reraise=True)\<close> is tenacity's loop: call the body; when it returns, return its value;
  when it raises and the attempt number has reached the stop, raise (the body's own
  exception when \<^verbatim>\<open>reraise\<close> is on, \<^verbatim>\<open>RetryError\<close> otherwise); else sleep
  \<open>wait attempt_number\<close> seconds and call again. tenacity's exponential wait after
  attempt \<open>n\<close> is \<open>multiplier * 2 ^ (n - 1)\<close>, clamped between \<open>min\<close> and \<open>max\<close>.
\<close>

definition wait_exponential :: "nat \<Rightarrow> nat \<Rightarrow> nat \<Rightarrow> nat \<Rightarrow> nat" where
  "wait_exponential multiplier mn mx attempt_number =
     max (max 0 mn) (min (multiplier * 2 ^ (attempt_number - 1)) mx)"

function retry ::
  "nat \<Rightarrow> (nat \<Rightarrow> nat) \<Rightarrow> bool \<Rightarrow> (nat \<Rightarrow> 'a outcome \<times> event list) \<Rightarrow> nat
     \<Rightarrow> 'a outcome \<times> event list" where
  "retry stop_after wait reraise body n =
     (case body n of
        (Returned v, tr) \<Rightarrow> (Returned v, tr)
      | (Raised e, tr) \<Rightarrow>
          if stop_after \<le> n then (Raised (if reraise then e else RetryError), tr)
          else (case retry stop_after wait reraise body (Suc n) of
                  (r, tr') \<Rightarrow> (r, tr @ Sleep (wait n) # tr')))"
  by pat_completeness auto
termination
  by (relation "measure (\<lambda>(stop_after, wait, reraise, body, n). stop_after - n)") auto

declare retry.simps [simp del]

subsection \<open>Fetch Client\<close>

definition fetch_data_attempt ::
  "'a session \<Rightarrow> string \<Rightarrow> params \<Rightarrow> nat \<Rightarrow> 'a option outcome \<times> event list" where
  "fetch_data_attempt session url params n =
     (case session url params n of
        ConnectionFails \<Rightarrow> (Raised ClientError, [HttpGet url params])
      | Responds st body \<Rightarrow>
          if st = 200 then
            (case body of
               None \<Rightarrow> (Raised ContentTypeError, [HttpGet url params])
             | Some doc \<Rightarrow> (Returned (Some doc), [HttpGet url params]))
          else
            (Returned None,
             [HttpGet url params,
              LogWarning (''Failed to fetch data from '' @ url @ '', status code: '' @ str_nat st)]))"

definition fetch_data :: "'a session \<Rightarrow> string \<Rightarrow> params \<Rightarrow> 'a option outcome \<times> event list" where
  "fetch_data session url params =
     retry 5 (wait_exponential 1 1 60) True (fetch_data_attempt session url params) 1"

subsection \<open>Data model\<close>

text \<open>
  The catalog's answer: \<^verbatim>\<open>count\<close> and \<^verbatim>\<open>release-groups\<close>, each release group with
  \<^verbatim>\<open>primary-type\<close> and \<^verbatim>\<open>releases\<close>, each release with \<^verbatim>\<open>id\<close> and \<^verbatim>\<open>status\<close>.
  The art archive's answer: \<^verbatim>\<open>images\<close>, each with \<^verbatim>\<open>image\<close> and \<^verbatim>\<open>types\<close>.
\<close>

record release =
  j_id :: "string option"
  j_status :: "string option"

record release_group =
  j_primary_type :: "string option"
  j_releases :: "release list option"

record rg_page =
  j_count :: "int option"
  j_release_groups :: "release_group list option"

record art_image =
  j_image :: "string option"
  j_types :: "string list option"

record art_response =
  j_images :: "art_image list option"

record image_detail =
  d_url :: string
  d_dimensions :: "nat \<times> nat"
  d_resolution :: nat
  d_local_path :: "string option"

record artist_albums =
  c_artist :: string
  c_albums :: "string list"

record config =
  c_artists_albums :: "artist_albums list"
  c_release_type :: "string option"
  c_status :: "string option"
  c_save_images :: "bool option"
  c_output_dir :: "string option"
  c_skip_existing :: "bool option"

record summary_entry =
  s_artist :: string
  s_album :: string
  s_highest_resolution_image :: image_detail

datatype stage = Pagination | ArtLocation | Materialization

text \<open>
  A disk: for each path \<open>None\<close> when there is no such file, \<open>Some None\<close> for a file
  that is not an image, \<open>Some (Some (w, h))\<close> for an image of that size.
\<close>

type_synonym disk = "string \<Rightarrow> (nat \<times> nat) option option"

text \<open>
  The environment: the three services behind the one client session, the files on disk,
  the images that cannot be saved (\<open>unsavable url path\<close>: \<^verbatim>\<open>image.save(path)\<close> raises for
  the image downloaded from \<open>url\<close>), the order in which the tasks of each fan-out stage
  of each album complete, and the clock reading used in file names.
\<close>

record world =
  catalog_srv :: "rg_page json session"
  archive_srv :: "art_response json session"
  image_srv :: "(nat \<times> nat) session"
  files :: disk
  unsavable :: "string \<Rightarrow> string \<Rightarrow> bool"
  completion :: "stage \<Rightarrow> string \<Rightarrow> string \<Rightarrow> nat list"
  now :: string

subsection \<open>Python idioms\<close>

text \<open>
  What \<^verbatim>\<open>fetch_data\<close> returned, about to be asked for a key with \<^verbatim>\<open>.get\<close>: the empty
  dictionary and a JSON object have the method, any other value raises.
\<close>

definition as_dict :: "'d json option \<Rightarrow> 'd option outcome" where
  "as_dict data =
     (case data of
        None \<Rightarrow> Returned None
      | Some NonObject \<Rightarrow> Raised AttributeError
      | Some (Object d) \<Rightarrow> Returned (Some d))"

text \<open>\<^verbatim>\<open>d.get(key, default)\<close> on a dictionary that may be the empty one.\<close>

definition get_or :: "('d \<Rightarrow> 'v option) \<Rightarrow> 'v \<Rightarrow> 'd option \<Rightarrow> 'v" where
  "get_or field dflt d =
     (case d of
        None \<Rightarrow> dflt
      | Some r \<Rightarrow> (case field r of None \<Rightarrow> dflt | Some v \<Rightarrow> v))"

text \<open>Truth value of an optional string: \<^verbatim>\<open>None\<close> and \<^verbatim>\<open>""\<close> are false.\<close>

definition truthy :: "string option \<Rightarrow> bool" where
  "truthy s = (case s of None \<Rightarrow> False | Some t \<Rightarrow> t \<noteq> [])"

text \<open>\<^verbatim>\<open>range(start, stop, step)\<close> for a positive step, the only use in the source.\<close>

function py_range :: "int \<Rightarrow> int \<Rightarrow> int \<Rightarrow> int list" where
  "py_range start stop step =
     (if step \<le> 0 \<or> stop \<le> start then [] else start # py_range (start + step) stop step)"
  by pat_completeness auto
termination
  by (relation "measure (\<lambda>(start, stop, step). nat (stop - start))") auto

declare py_range.simps [simp del]

text \<open>\<^verbatim>\<open>os.path.join(a, b)\<close> and \<^verbatim>\<open>os.path.basename(p)\<close> of posixpath.\<close>

definition path_join :: "string \<Rightarrow> string \<Rightarrow> string" where
  "path_join a b =
     (if b \<noteq> [] \<and> hd b = CHR ''/'' then b
      else if a = [] \<or> last a = CHR ''/'' then a @ b
      else a @ ''/'' @ b)"

definition basename :: "string \<Rightarrow> string" where
  "basename p = rev (takeWhile (\<lambda>c. c \<noteq> CHR ''/'') (rev p))"

text \<open>
  \<^verbatim>\<open>os.path.dirname(p)\<close>: the part up to the last slash, without its trailing slashes
  unless it consists of slashes only.
\<close>

definition dirname :: "string \<Rightarrow> string" where
  "dirname p =
     (let head = rev (dropWhile (\<lambda>c. c \<noteq> CHR ''/'') (rev p))
      in if head \<noteq> [] \<and> filter (\<lambda>c. c \<noteq> CHR ''/'') head \<noteq> []
         then rev (dropWhile (\<lambda>c. c = CHR ''/'') (rev head))
         else head)"

text \<open>
  \<^verbatim>\<open>for task in tqdm.as_completed(tasks)\<close> yields the launched tasks in the order in which
  they complete. The order is chosen by the environment: a list of picks, each taking
  one of the tasks not yet completed (the pick modulo their number); when the picks run
  out the remaining tasks complete in launch order. Every order of completion is the
  result of some list of picks (\<open>as_completed_any_order\<close> below).
\<close>

function as_completed :: "nat list \<Rightarrow> 'a list \<Rightarrow> 'a list" where
  "as_completed picks [] = []"
| "as_completed [] (t # ts) = t # ts"
| "as_completed (p # picks) (t # ts) =
     (let i = p mod length (t # ts)
      in (t # ts) ! i # as_completed picks (take i (t # ts) @ drop (Suc i) (t # ts)))"
  by pat_completeness auto
termination
  by (relation "measure (\<lambda>(picks, ts). length ts)") auto

text \<open>
  \<^verbatim>\<open>result = await task\<close> for each task in turn, appending to the results: the first task
  that raised ends the loop with its exception. All tasks were launched before the first
  was awaited and none is cancelled, so the effects of all of them are in the trace.
\<close>

fun await_all :: "('a outcome \<times> event list) list \<Rightarrow> 'a list outcome \<times> event list" where
  "await_all [] = (Returned [], [])"
| "await_all ((Returned v, tr) # rest) =
     (case await_all rest of
        (Returned vs, tr') \<Rightarrow> (Returned (v # vs), tr @ tr')
      | (Raised e, tr') \<Rightarrow> (Raised e, tr @ tr'))"
| "await_all ((Raised e, tr) # rest) = (Raised e, tr @ snd (await_all rest))"

subsection \<open>Release Resolver\<close>

definition release_group_params :: "string \<Rightarrow> string \<Rightarrow> int \<Rightarrow> int \<Rightarrow> params" where
  "release_group_params artist album offset limit =
     [(''query'', PStr (''artist:'' @ artist @ '' AND releasegroup:'' @ album)),
      (''fmt'', PStr ''json''),
      (''limit'', PInt limit),
      (''offset'', PInt offset)]"

definition fetch_release_groups ::
  "world \<Rightarrow> string \<Rightarrow> string \<Rightarrow> int \<Rightarrow> int
     \<Rightarrow> rg_page json option outcome \<times> event list" where
  "fetch_release_groups w artist album offset limit =
     (case fetch_data (catalog_srv w) ''https://musicbrainz.org/ws/2/release-group/''
             (release_group_params artist album offset limit) of
        (Raised e, tr) \<Rightarrow>
          if e = RetryError then
            (Returned None,
             tr @ [LogError (''Failed to fetch release groups after retries: '' @ str_exn e)])
          else (Raised e, tr)
      | (Returned data, tr) \<Rightarrow> (Returned data, tr))"

text \<open>
  A page task as the loop of lines 133--136 meets it: the awaited result is asked for
  \<^verbatim>\<open>"release-groups"\<close> at once, which raises when it is not a dictionary.
\<close>

definition page_result ::
  "rg_page json option outcome \<times> event list \<Rightarrow> rg_page option outcome \<times> event list" where
  "page_result t =
     (case t of
        (Raised e, tr) \<Rightarrow> (Raised e, tr)
      | (Returned data, tr) \<Rightarrow> (as_dict data, tr))"

definition get_release_groups ::
  "world \<Rightarrow> nat list \<Rightarrow> string \<Rightarrow> string \<Rightarrow> release_group list outcome \<times> event list" where
  "get_release_groups w order artist album =
     (let limit = 100 in
      case page_result (fetch_release_groups w artist album 0 limit) of
        (Raised e, tr0) \<Rightarrow> (Raised e, tr0)
      | (Returned initial_data, tr0) \<Rightarrow>
          (let total_count = get_or j_count 0 initial_data;
               first_groups = get_or j_release_groups [] initial_data;
               tasks = map (\<lambda>offset. fetch_release_groups w artist album offset limit)
                         (py_range limit total_count limit)
           in case await_all (map page_result (as_completed order tasks)) of
                (Raised e, tr) \<Rightarrow> (Raised e, tr0 @ tr)
              | (Returned results, tr) \<Rightarrow>
                  (Returned (first_groups @ concat (map (get_or j_release_groups []) results)),
                   tr0 @ tr)))"

subsection \<open>Art Locator\<close>

definition front_urls :: "art_image list \<Rightarrow> string list" where
  "front_urls imgs =
     concat (map (\<lambda>img.
       case j_image img of
         None \<Rightarrow> []
       | Some u \<Rightarrow>
           (case j_types img of
              None \<Rightarrow> []
            | Some ts \<Rightarrow> if ts \<noteq> [] \<and> ''Front'' \<in> set ts then [u] else [])) imgs)"

definition fetch_cover_art_urls ::
  "world \<Rightarrow> string \<Rightarrow> (string \<times> string list) outcome \<times> event list" where
  "fetch_cover_art_urls w release_id =
     (let url = ''https://coverartarchive.org/release/'' @ release_id in
      case fetch_data (archive_srv w) url [] of
        (Raised e, tr) \<Rightarrow>
          if e = RetryError then (Returned (release_id, []), tr) else (Raised e, tr)
      | (Returned data, tr) \<Rightarrow>
          (case as_dict data of
             Raised e \<Rightarrow>
               if e = RetryError then (Returned (release_id, []), tr) else (Raised e, tr)
           | Returned d \<Rightarrow>
               (Returned (release_id, front_urls (get_or j_images [] d)), tr)))"

definition get_cover_art_urls ::
  "world \<Rightarrow> nat list \<Rightarrow> string list \<Rightarrow> (string \<times> string list) list outcome \<times> event list" where
  "get_cover_art_urls w order release_ids =
     await_all (as_completed order (map (fetch_cover_art_urls w) release_ids))"

subsection \<open>Image Materializer\<close>

text \<open>
  Lines 51--53: \<^verbatim>\<open>local_path\<close> stays \<^verbatim>\<open>None\<close> unless \<^verbatim>\<open>save_path\<close> is set (not
  \<^verbatim>\<open>None\<close> and not empty).
\<close>

definition local_path_of :: "string option \<Rightarrow> string \<Rightarrow> string option" where
  "local_path_of save_path url =
     (case save_path of
        None \<Rightarrow> None
      | Some sp \<Rightarrow> if sp = [] then None else Some (path_join sp (basename url)))"

definition image_error :: "string \<Rightarrow> exn \<Rightarrow> event" where
  "image_error url e =
     LogError (''Failed to fetch image details for URL '' @ url @ '': '' @ str_exn e)"

text \<open>
  Lines 65--80, the \<^verbatim>\<open>try\<close> block: one GET of the image; whatever is raised inside
  the block (by the connection, by \<^verbatim>\<open>Image.open\<close>, by \<^verbatim>\<open>image.save\<close>) is caught by
  \<^verbatim>\<open>except Exception\<close>, logged, and the empty dictionary is returned. \<open>arrival\<close> is the
  disk at the time the response has been read, which line 70 tests.
\<close>

definition download ::
  "world \<Rightarrow> disk \<Rightarrow> string \<Rightarrow> string option \<Rightarrow> bool \<Rightarrow> nat
     \<Rightarrow> image_detail option outcome \<times> event list" where
  "download w arrival url local_path skip_existing n =
     (case image_srv w url [] n of
        ConnectionFails \<Rightarrow> (Returned None, [HttpGet url [], image_error url ClientError])
      | Responds st body \<Rightarrow>
          (case body of
             None \<Rightarrow> (Returned None, [HttpGet url [], image_error url UnidentifiedImageError])
           | Some (width, height) \<Rightarrow>
               (let detail = \<lparr>d_url = url, d_dimensions = (width, height),
                              d_resolution = width * height, d_local_path = local_path\<rparr>
                in case local_path of
                     None \<Rightarrow> (Returned (Some detail), [HttpGet url []])
                   | Some lp \<Rightarrow>
                       if skip_existing \<and> arrival lp \<noteq> None then
                         (Returned (Some detail), [HttpGet url [], PathExists lp])
                       else if unsavable w url lp then
                         (Returned None,
                          HttpGet url [] # (if skip_existing then [PathExists lp] else []) @
                          [ImageSave lp, image_error url OSError])
                       else
                         (Returned (Some detail),
                          HttpGet url [] # (if skip_existing then [PathExists lp] else []) @
                          [ImageSave lp]))))"

text \<open>
  The body of \<^verbatim>\<open>fetch_image_details\<close>: lines 51--63 (the cache, tested on the disk of
  the world, as it is when the call starts) and then the download. Only \<^verbatim>\<open>Image.open\<close>
  of a cached file that is not an image raises out of the body.
\<close>

definition fetch_image_details_attempt ::
  "world \<Rightarrow> disk \<Rightarrow> string \<Rightarrow> string option \<Rightarrow> bool \<Rightarrow> nat
     \<Rightarrow> image_detail option outcome \<times> event list" where
  "fetch_image_details_attempt w arrival url save_path skip_existing n =
     (case local_path_of save_path url of
        None \<Rightarrow> download w arrival url None skip_existing n
      | Some lp \<Rightarrow>
          if skip_existing then
            (case files w lp of
               None \<Rightarrow>
                 (case download w arrival url (Some lp) skip_existing n of
                    (r, tr) \<Rightarrow> (r, PathExists lp # tr))
             | Some content \<Rightarrow>
                 (case content of
                    None \<Rightarrow> (Raised UnidentifiedImageError, [PathExists lp, ImageOpen lp])
                  | Some (width, height) \<Rightarrow>
                      (Returned (Some \<lparr>d_url = url, d_dimensions = (width, height),
                                      d_resolution = width * height, d_local_path = Some lp\<rparr>),
                       [PathExists lp, ImageOpen lp])))
          else download w arrival url (Some lp) skip_existing n)"

definition fetch_image_details ::
  "world \<Rightarrow> disk \<Rightarrow> string \<Rightarrow> string option \<Rightarrow> bool
     \<Rightarrow> image_detail option outcome \<times> event list" where
  "fetch_image_details w arrival url save_path skip_existing =
     retry 5 (wait_exponential 1 1 60) True
       (fetch_image_details_attempt w arrival url save_path skip_existing) 1"

text \<open>
  The disk after a call: a save that succeeded has written the image; a save that
  failed leaves the disk as it was (PIL removes the file it had created).
\<close>

definition disk_after ::
  "disk \<Rightarrow> string \<Rightarrow> string option \<Rightarrow> image_detail option outcome \<times> event list \<Rightarrow> disk" where
  "disk_after arrival url save_path t =
     (case local_path_of save_path url of
        None \<Rightarrow> arrival
      | Some lp \<Rightarrow>
          (case t of
             (Returned (Some detail), tr) \<Rightarrow>
               if ImageSave lp \<in> set tr
               then arrival(lp := Some (Some (d_dimensions detail)))
               else arrival
           | (r, tr) \<Rightarrow> arrival))"

text \<open>
  The tasks of lines 193--196 in the order in which they complete, each meeting the disk
  that the tasks before it have left.
\<close>

fun materialize ::
  "world \<Rightarrow> disk \<Rightarrow> string list \<Rightarrow> string option \<Rightarrow> bool
     \<Rightarrow> (image_detail option outcome \<times> event list) list" where
  "materialize w arrival [] save_path skip_existing = []"
| "materialize w arrival (url # urls) save_path skip_existing =
     (let t = fetch_image_details w arrival url save_path skip_existing
      in t # materialize w (disk_after arrival url save_path t) urls save_path skip_existing)"

text \<open>
  \<^verbatim>\<open>[detail for detail in image_details if detail]\<close>, and Python's stable
  \<^verbatim>\<open>sorted(xs, key=key, reverse=True)\<close>: descending keys, equal keys in their order in
  \<open>xs\<close>.
\<close>

definition valid_details :: "image_detail option list \<Rightarrow> image_detail list" where
  "valid_details image_details =
     concat (map (\<lambda>detail. case detail of None \<Rightarrow> [] | Some d \<Rightarrow> [d]) image_details)"

definition sorted_reverse :: "('a \<Rightarrow> nat) \<Rightarrow> 'a list \<Rightarrow> 'a list" where
  "sorted_reverse key xs = sort_key (\<lambda>x. - int (key x)) xs"

definition find_image_details ::
  "world \<Rightarrow> nat list \<Rightarrow> string list \<Rightarrow> string option \<Rightarrow> bool
     \<Rightarrow> image_detail list outcome \<times> event list" where
  "find_image_details w order urls save_path skip_existing =
     (case await_all
             (materialize w (files w) (as_completed order urls) save_path skip_existing) of
        (Raised e, tr) \<Rightarrow> (Raised e, tr)
      | (Returned image_details, tr) \<Rightarrow>
          (Returned (sorted_reverse d_resolution (valid_details image_details)), tr))"

subsection \<open>Ranking and aggregation\<close>

definition save_output_to_file :: "string \<Rightarrow> event list" where
  "save_output_to_file filepath =
     [MakeDirs (dirname filepath), WriteJson filepath, LogInfo (''Output saved to '' @ filepath)]"

definition matching :: "string option \<Rightarrow> string option \<Rightarrow> bool" where
  "matching wanted found = (if truthy wanted then found = wanted else True)"

fun ids_of_releases :: "string option \<Rightarrow> release list \<Rightarrow> string list outcome" where
  "ids_of_releases status [] = Returned []"
| "ids_of_releases status (r # rs) =
     (if matching status (j_status r) then
        (case j_id r of
           None \<Rightarrow> Raised KeyError
         | Some i \<Rightarrow>
             (case ids_of_releases status rs of
                Raised e \<Rightarrow> Raised e
              | Returned ids \<Rightarrow> Returned (i # ids)))
      else ids_of_releases status rs)"

definition release_ids_of :: "string option \<Rightarrow> release_group list \<Rightarrow> string list outcome" where
  "release_ids_of status release_groups =
     ids_of_releases status
       (concat (map (\<lambda>release_group.
          case j_releases release_group of None \<Rightarrow> [] | Some rs \<Rightarrow> rs) release_groups))"

text \<open>Line 289: \<^verbatim>\<open>sorted_image_details[0] if sorted_image_details else {}\<close>.\<close>

definition winner :: "image_detail list \<Rightarrow> image_detail option" where
  "winner sorted_image_details =
     (case sorted_image_details of [] \<Rightarrow> None | d # rest \<Rightarrow> Some d)"

definition process_artist_album ::
  "world \<Rightarrow> string \<Rightarrow> string \<Rightarrow> string option \<Rightarrow> string option \<Rightarrow> bool \<Rightarrow> string \<Rightarrow> bool
     \<Rightarrow> image_detail option outcome \<times> event list" where
  "process_artist_album w artist album release_type status save_images output_dir skip_existing =
     (case get_release_groups w (completion w Pagination artist album) artist album of
        (Raised e, tr1) \<Rightarrow> (Raised e, tr1)
      | (Returned found, tr1) \<Rightarrow>
          (let release_groups =
                 (if truthy release_type
                  then filter (\<lambda>rg. j_primary_type rg = release_type) found
                  else found)
           in if release_groups = [] then
                (Returned None,
                 tr1 @ [LogError (''No release group found for '' @ artist @ '' - '' @ album @
                                  '' matching the criteria.'')])
              else
                (case release_ids_of status release_groups of
                   Raised e \<Rightarrow> (Raised e, tr1)
                 | Returned release_ids \<Rightarrow>
                     (case get_cover_art_urls w (completion w ArtLocation artist album)
                             release_ids of
                        (Raised e, tr2) \<Rightarrow> (Raised e, tr1 @ tr2)
                      | (Returned cover_art_results, tr2) \<Rightarrow>
                          (let all_cover_art_urls = concat (map snd cover_art_results) in
                           if all_cover_art_urls = [] then
                             (Returned None,
                              tr1 @ tr2 @
                              [LogError (''No cover art found for '' @ artist @ '' - '' @ album @
                                         ''.'')])
                           else
                             (let artist_dir = path_join output_dir artist;
                                  album_dir = path_join artist_dir album;
                                  save_path = (if save_images then Some album_dir else None)
                              in case find_image_details w
                                        (completion w Materialization artist album)
                                        all_cover_art_urls save_path skip_existing of
                                   (Raised e, tr3) \<Rightarrow>
                                     (Raised e, tr1 @ tr2 @ MakeDirs album_dir # tr3)
                                 | (Returned sorted_image_details, tr3) \<Rightarrow>
                                     (Returned (winner sorted_image_details),
                                      tr1 @ tr2 @ MakeDirs album_dir # tr3 @
                                      save_output_to_file
                                        (path_join album_dir (album @ ''.json'')))))))))"

text \<open>
  \<^verbatim>\<open>main\<close>: one pipeline per album of each artist, in the order of the configuration
  (lines 305--323); \<^verbatim>\<open>asyncio.gather\<close> returns their results in that order, or raises
  when one of them raised; lines 327--337 build the summary.
\<close>

definition pipelines :: "world \<Rightarrow> config \<Rightarrow> (image_detail option outcome \<times> event list) list" where
  "pipelines w cfg =
     concat (map (\<lambda>artist_album.
       map (\<lambda>album.
         process_artist_album w (c_artist artist_album) album
           (c_release_type cfg) (c_status cfg)
           (case c_save_images cfg of None \<Rightarrow> False | Some b \<Rightarrow> b)
           (case c_output_dir cfg of None \<Rightarrow> ''.'' | Some d \<Rightarrow> d)
           (case c_skip_existing cfg of None \<Rightarrow> True | Some b \<Rightarrow> b))
         (c_albums artist_album))
       (c_artists_albums cfg))"

definition highest_res_images_of ::
  "image_detail option list \<Rightarrow> artist_albums list \<Rightarrow> summary_entry list" where
  "highest_res_images_of results artists_albums =
     concat (map (\<lambda>(highest_res_image, artist_album).
       concat (map (\<lambda>album.
         case highest_res_image of
           None \<Rightarrow> []
         | Some img \<Rightarrow>
             [\<lparr>s_artist = c_artist artist_album, s_album = album,
               s_highest_resolution_image = img\<rparr>])
         (c_albums artist_album)))
       (zip results artists_albums))"

definition main :: "world \<Rightarrow> config \<Rightarrow> bool \<Rightarrow> summary_entry list outcome \<times> event list" where
  "main w cfg should_save_config =
     (case await_all (pipelines w cfg) of
        (Raised e, tr) \<Rightarrow> (Raised e, tr)
      | (Returned results, tr) \<Rightarrow>
          (let artists_albums = c_artists_albums cfg;
               output_dir = (case c_output_dir cfg of None \<Rightarrow> ''.'' | Some d \<Rightarrow> d);
               highest_res_images = highest_res_images_of results artists_albums;
               tr_summary =
                 (case artists_albums of
                    [] \<Rightarrow> []
                  | first_entry # others \<Rightarrow>
                      if highest_res_images = [] then []
                      else save_output_to_file
                             (path_join (path_join output_dir (c_artist first_entry))
                                (''highest_resolution_images_'' @ now w @ ''.json'')));
               tr_config =
                 (if should_save_config
                  then [WriteJson (path_join output_dir (''config_'' @ now w @ ''.json''))]
                  else [])
           in (Returned highest_res_images, tr @ tr_summary @ tr_config)))"

subsection \<open>Observations on traces\<close>

text \<open>The requests of a trace, and the waits of the retry decorator in it.\<close>

definition is_get :: "event \<Rightarrow> bool" where
  "is_get e = (case e of HttpGet u p \<Rightarrow> True | _ \<Rightarrow> False)"

definition sleeps :: "event list \<Rightarrow> nat list" where
  "sleeps tr = concat (map (\<lambda>e. case e of Sleep s \<Rightarrow> [s] | _ \<Rightarrow> []) tr)"

definition touches_disk :: "event \<Rightarrow> bool" where
  "touches_disk e =
     (case e of PathExists p \<Rightarrow> True | ImageOpen p \<Rightarrow> True | ImageSave p \<Rightarrow> True | _ \<Rightarrow> False)"

text \<open>
  The requests of a trace: its GETs, but for those that repeat the request before them
  after a wait of the retry decorator (a request that is retried is one request, a page
  that is fetched twice is two). And what a page adds to the merged list: the length of
  its \<^verbatim>\<open>release-groups\<close>, nothing when the key is missing or the page is the empty
  dictionary.
\<close>

fun first_attempts :: "bool \<Rightarrow> event list \<Rightarrow> event list" where
  "first_attempts after_wait [] = []"
| "first_attempts after_wait (e # tr) =
     (if is_get e \<and> \<not> after_wait then [e] else []) @
     first_attempts (case e of Sleep s \<Rightarrow> True | _ \<Rightarrow> False) tr"

definition page_requests :: "event list \<Rightarrow> event list" where
  "page_requests tr = first_attempts False tr"

definition page_contribution :: "rg_page option outcome \<Rightarrow> nat" where
  "page_contribution r =
     (case r of Returned data \<Rightarrow> length (get_or j_release_groups [] data) | Raised e \<Rightarrow> 0)"

subsection \<open>Scenarios\<close>

text \<open>
  The album of the specification's end-to-end scenario: one release group of type Album
  with two releases, each with one front cover, of 500 x 500 and of 1000 x 1000 pixels.
  One of the two images is already on disk under \<^verbatim>\<open>covers\<close>.
\<close>

definition two_releases :: rg_page where
  "two_releases =
     \<lparr>j_count = Some 1,
      j_release_groups = Some
        [\<lparr>j_primary_type = Some ''Album'',
          j_releases = Some [\<lparr>j_id = Some ''r1'', j_status = Some ''Official''\<rparr>,
                             \<lparr>j_id = Some ''r2'', j_status = Some ''Official''\<rparr>]\<rparr>]\<rparr>"

definition front_cover :: "string \<Rightarrow> art_response" where
  "front_cover u = \<lparr>j_images = Some [\<lparr>j_image = Some u, j_types = Some [''Front'']\<rparr>]\<rparr>"

definition geogaddi :: world where
  "geogaddi =
     \<lparr>catalog_srv = (\<lambda>u p n. Responds 200 (Some (Object two_releases))),
      archive_srv = (\<lambda>u p n.
        if u = ''https://coverartarchive.org/release/r1''
        then Responds 200 (Some (Object (front_cover ''http://img/a.jpg'')))
        else Responds 200 (Some (Object (front_cover ''http://img/b.jpg'')))),
      image_srv = (\<lambda>u p n.
        if u = ''http://img/a.jpg'' then Responds 200 (Some (500, 500))
        else Responds 200 (Some (1000, 1000))),
      files = (\<lambda>p. if p = ''covers/a.jpg'' then Some (Some (500, 500)) else None),
      unsavable = (\<lambda>u p. False),
      completion = (\<lambda>s a b. []),
      now = ''20240101_000000''\<rparr>"

definition one_album :: config where
  "one_album =
     \<lparr>c_artists_albums = [\<lparr>c_artist = ''Boards of Canada'', c_albums = [''Geogaddi'']\<rparr>],
      c_release_type = None, c_status = None, c_save_images = None,
      c_output_dir = None, c_skip_existing = None\<rparr>"

text \<open>The art archive drops every connection for release \<^verbatim>\<open>r1\<close>.\<close>

definition dropping_archive :: world where
  "dropping_archive =
     geogaddi\<lparr>archive_srv := \<lambda>u p n.
        if u = ''https://coverartarchive.org/release/r1'' then ConnectionFails
        else Responds 200 (Some (Object (front_cover ''http://img/b.jpg'')))\<rparr>"

text \<open>The catalog reports 150 matches and drops every connection for the second page.\<close>

definition dropping_catalog :: world where
  "dropping_catalog =
     geogaddi\<lparr>catalog_srv := \<lambda>u p n.
        if map_of p ''offset'' = Some (PInt 0)
        then Responds 200 (Some (Object (two_releases\<lparr>j_count := Some 150\<rparr>)))
        else ConnectionFails\<rparr>"

text \<open>Both images have the same size.\<close>

definition twins :: world where
  "twins = geogaddi\<lparr>image_srv := \<lambda>u p n. Responds 200 (Some (500, 500))\<rparr>"

text \<open>
  A catalog that knows the scenario's album and reports no match for any other; the two
  images of the scenario; a configuration with the defaults and the given requests.
\<close>

definition no_matches :: rg_page where
  "no_matches = \<lparr>j_count = Some 0, j_release_groups = Some []\<rparr>"

definition sparse_catalog :: world where
  "sparse_catalog =
     geogaddi\<lparr>catalog_srv := \<lambda>u p n.
        if map_of p ''query'' = Some (PStr ''artist:Boards of Canada AND releasegroup:Geogaddi'')
        then Responds 200 (Some (Object two_releases))
        else Responds 200 (Some (Object no_matches))\<rparr>"

definition b_jpg :: image_detail where
  "b_jpg = \<lparr>d_url = ''http://img/b.jpg'', d_dimensions = (1000, 1000),
            d_resolution = 1000000, d_local_path = None\<rparr>"

definition a_jpg :: image_detail where
  "a_jpg = \<lparr>d_url = ''http://img/a.jpg'', d_dimensions = (500, 500),
            d_resolution = 250000, d_local_path = None\<rparr>"

definition requests :: "artist_albums list \<Rightarrow> config" where
  "requests artists_albums =
     \<lparr>c_artists_albums = artists_albums,
      c_release_type = None, c_status = None, c_save_images = None,
      c_output_dir = None, c_skip_existing = None\<rparr>"

text \<open>
  A catalog that reports 250 matches: two groups on the first page, status 503 for the
  second, and for the third a dropped connection and then one group.
\<close>

definition some_group :: release_group where
  "some_group = \<lparr>j_primary_type = Some ''Album'', j_releases = Some []\<rparr>"

definition three_pages :: world where
  "three_pages =
     geogaddi\<lparr>catalog_srv := \<lambda>u p n.
        if map_of p ''offset'' = Some (PInt 0)
        then Responds 200 (Some (Object \<lparr>j_count = Some 250,
                                         j_release_groups = Some [some_group, some_group]\<rparr>))
        else if map_of p ''offset'' = Some (PInt 100) then Responds 503 None
        else if n = 1 then ConnectionFails
        else Responds 200 (Some (Object \<lparr>j_count = Some 250,
                                         j_release_groups = Some [some_group]\<rparr>))\<rparr>"

text \<open>
  Two images with the same file name, the second of which cannot be saved (PIL refuses
  to write its mode as JPEG).
\<close>

definition c_large :: image_detail where
  "c_large = \<lparr>d_url = ''http://img/1/c.jpg'', d_dimensions = (1000, 1000),
              d_resolution = 1000000, d_local_path = Some ''covers/c.jpg''\<rparr>"

definition c_small :: image_detail where
  "c_small = \<lparr>d_url = ''http://img/2/c.jpg'', d_dimensions = (500, 500),
              d_resolution = 250000, d_local_path = Some ''covers/c.jpg''\<rparr>"

definition same_name :: world where
  "same_name =
     geogaddi\<lparr>image_srv := \<lambda>u p n.
                 if u = ''http://img/1/c.jpg'' then Responds 200 (Some (1000, 1000))
                 else Responds 200 (Some (500, 500)),
              unsavable := \<lambda>u p. u = ''http://img/2/c.jpg''\<rparr>"

section \<open>Properties\<close>

subsection \<open>The retry decorator and the fetch client\<close>

lemma sleeps_append: "sleeps (a @ b) = sleeps a @ sleeps b"
  by (simp add: sleeps_def)

lemma sleeps_Sleep: "sleeps (Sleep s # tr) = s # sleeps tr"
  by (simp add: sleeps_def)

lemma is_get_Sleep: "\<not> is_get (Sleep s)"
  by (simp add: is_get_def)

lemma retry_returned:
  "body n = (Returned v, tr) \<Longrightarrow> retry s w r body n = (Returned v, tr)"
  by (subst retry.simps) simp

lemma retry_raised_last:
  "body n = (Raised e, tr) \<Longrightarrow> s \<le> n \<Longrightarrow>
   retry s w r body n = (Raised (if r then e else RetryError), tr)"
  by (subst retry.simps) simp

lemma retry_raised_again:
  "body n = (Raised e, tr) \<Longrightarrow> n < s \<Longrightarrow>
   retry s w r body n =
     (fst (retry s w r body (Suc n)), tr @ Sleep (w n) # snd (retry s w r body (Suc n)))"
  by (subst retry.simps) (simp split: prod.splits)

lemma retry_fail_prefix:
  assumes "\<forall>j. n \<le> j \<and> j < k \<longrightarrow> body j = (Raised e, tr)" and "n \<le> k" and "k \<le> s"
  shows "retry s w r body n =
         (fst (retry s w r body k),
          concat (map (\<lambda>j. tr @ [Sleep (w j)]) [n..<k]) @ snd (retry s w r body k))"
  using assms
proof (induction "k - n" arbitrary: n)
  case 0
  then show ?case by simp
next
  case (Suc d)
  then have lt: "n < k" and b: "body n = (Raised e, tr)" by auto
  have ih: "retry s w r body (Suc n) =
         (fst (retry s w r body k),
          concat (map (\<lambda>j. tr @ [Sleep (w j)]) [Suc n..<k]) @ snd (retry s w r body k))"
    using Suc.hyps(1)[of "Suc n"] Suc.hyps(2) Suc.prems by auto
  have "n < s" using lt Suc.prems by simp
  from retry_raised_again[where body=body and n=n, OF b this, of w r] ih lt show ?case
    by (simp add: upt_conv_Cons)
qed

lemma wait_exponential_value:
  "1 \<le> j \<Longrightarrow> j \<le> 6 \<Longrightarrow> wait_exponential 1 1 60 j = 2 ^ (j - 1)"
proof -
  assume a: "1 \<le> j" "j \<le> 6"
  then have "(2::nat) ^ (j - 1) \<le> 2 ^ 5" by (intro power_increasing) auto
  moreover have "(1::nat) \<le> 2 ^ (j - 1)" by simp
  ultimately show ?thesis by (simp add: wait_exponential_def max_def min_def)
qed

lemma retry_counts:
  assumes one: "\<And>j. length (filter is_get (snd (body j))) = 1 \<and> sleeps (snd (body j)) = []"
  shows "n \<le> s \<Longrightarrow> \<exists>m. m \<le> s - n \<and>
           length (filter is_get (snd (retry s w r body n))) = Suc m \<and>
           sleeps (snd (retry s w r body n)) = map w [n..<n + m]"
proof (induction "s - n" arbitrary: n)
  case 0
  then have "s \<le> n" by simp
  show ?case
  proof (cases "body n")
    case (Pair res tr)
    then show ?thesis using one[of n] \<open>s \<le> n\<close>
      by (cases res) (auto simp: retry_returned retry_raised_last intro!: exI[of _ 0])
  qed
next
  case (Suc d)
  then have lt: "n < s" by simp
  show ?case
  proof (cases "body n")
    case (Pair res tr)
    show ?thesis
    proof (cases res)
      case (Returned v)
      with Pair one[of n] show ?thesis
        by (auto simp: retry_returned intro!: exI[of _ 0])
    next
      case (Raised e)
      have d: "d = s - Suc n" and le: "Suc n \<le> s" using Suc.hyps(2) lt by auto
      from Suc.hyps(1)[OF d le] obtain m where
        m: "m \<le> s - Suc n" "length (filter is_get (snd (retry s w r body (Suc n)))) = Suc m"
           "sleeps (snd (retry s w r body (Suc n))) = map w [Suc n..<Suc n + m]"
        by blast
      have "retry s w r body n =
         (fst (retry s w r body (Suc n)), tr @ Sleep (w n) # snd (retry s w r body (Suc n)))"
        using retry_raised_again[where body=body and n=n and e=e and tr=tr] Pair Raised lt by simp
      moreover have "[n..<n + Suc m] = n # [Suc n..<Suc n + m]"
        by (simp add: upt_conv_Cons)
      ultimately show ?thesis
        using m one[of n] Pair lt
        by (intro exI[of _ "Suc m"])
           (simp add: sleeps_append sleeps_Sleep is_get_Sleep del: upt_Suc)
    qed
  qed
qed

lemma fetch_data_attempt_fails:
  "session url params j = ConnectionFails \<Longrightarrow>
   fetch_data_attempt session url params j = (Raised ClientError, [HttpGet url params])"
  by (simp add: fetch_data_attempt_def)

lemma fetch_data_attempt_status:
  "session url params j = Responds st body \<Longrightarrow> st \<noteq> 200 \<Longrightarrow>
   fetch_data_attempt session url params j =
     (Returned None,
      [HttpGet url params,
       LogWarning (''Failed to fetch data from '' @ url @ '', status code: '' @ str_nat st)])"
  by (simp add: fetch_data_attempt_def)

lemma fetch_data_attempt_one_get:
  "length (filter is_get (snd (fetch_data_attempt session url params j))) = 1 \<and>
   sleeps (snd (fetch_data_attempt session url params j)) = []"
  by (simp add: fetch_data_attempt_def is_get_def sleeps_def
           split: http_attempt.splits option.splits)

lemma waits_upto:
  "m \<le> 4 \<Longrightarrow> map (wait_exponential 1 1 60) [1..<1 + m] = take m [1, 2, 4, 8]"
proof -
  assume "m \<le> 4"
  then consider "m = 0" | "m = 1" | "m = 2" | "m = 3" | "m = 4" by linarith
  then show ?thesis
    by cases (simp_all add: wait_exponential_def upt_conv_Cons)
qed

lemma retry_exhausted:
  assumes "\<forall>j. 1 \<le> j \<and> j \<le> 5 \<longrightarrow> body j = (Raised e, tr)"
  shows "retry 5 (wait_exponential 1 1 60) True body 1 =
         (Raised e, tr @ Sleep 1 # tr @ Sleep 2 # tr @ Sleep 4 # tr @ Sleep 8 # tr)"
proof -
  let ?w = "wait_exponential 1 1 60"
  have fails: "\<forall>j. 1 \<le> j \<and> j < 5 \<longrightarrow> body j = (Raised e, tr)"
    using assms by simp
  have "body 5 = (Raised e, tr)"
    using assms by simp
  then have last: "retry 5 ?w True body 5 = (Raised e, tr)"
    using retry_raised_last[where body=body and n=5 and s=5 and r=True] by simp
  have upt: "[1..<5] = [1, 2, 3, 4::nat]" by (simp add: upt_conv_Cons)
  have step: "retry 5 ?w True body 1 =
         (fst (retry 5 ?w True body 5),
          concat (map (\<lambda>j. tr @ [Sleep (?w j)]) [1..<5]) @ snd (retry 5 ?w True body 5))"
    by (rule retry_fail_prefix) (use fails in auto)
  have w4: "?w 1 = 1" "?w 2 = 2" "?w 3 = 4" "?w 4 = 8"
    by (simp_all add: wait_exponential_def)
  show ?thesis
    by (simp only: step last upt w4 fst_conv snd_conv list.map concat.simps
                   append_Cons append_Nil append_assoc)
qed

lemma fetch_data_exhausted:
  assumes "\<forall>j. 1 \<le> j \<and> j \<le> 5 \<longrightarrow> session url params j = ConnectionFails"
  shows "fetch_data session url params =
        (Raised ClientError,
         [HttpGet url params, Sleep 1, HttpGet url params, Sleep 2, HttpGet url params,
          Sleep 4, HttpGet url params, Sleep 8, HttpGet url params])"
proof -
  have "\<forall>j. 1 \<le> j \<and> j \<le> 5 \<longrightarrow>
          fetch_data_attempt session url params j = (Raised ClientError, [HttpGet url params])"
    using assms by (simp add: fetch_data_attempt_fails)
  from retry_exhausted[OF this] show ?thesis
    by (simp add: fetch_data_def)
qed

lemma fetch_data_first_ok:
  "session url params 1 = Responds 200 (Some doc) \<Longrightarrow>
   fetch_data session url params = (Returned (Some doc), [HttpGet url params])"
  unfolding fetch_data_def
  by (rule retry_returned) (simp add: fetch_data_attempt_def)

lemma fetch_data_first_status:
  "session url params 1 = Responds st body \<Longrightarrow> st \<noteq> 200 \<Longrightarrow>
   fetch_data session url params =
     (Returned None,
      [HttpGet url params,
       LogWarning (''Failed to fetch data from '' @ url @ '', status code: '' @ str_nat st)])"
  unfolding fetch_data_def
  by (rule retry_returned) (simp add: fetch_data_attempt_def)

lemma fetch_data_second_ok:
  assumes "session url params 1 = ConnectionFails"
    and "session url params 2 = Responds 200 (Some doc)"
  shows "fetch_data session url params =
           (Returned (Some doc), [HttpGet url params, Sleep 1, HttpGet url params])"
proof -
  let ?body = "fetch_data_attempt session url params"
  let ?w = "wait_exponential 1 1 60"
  have fails: "\<forall>j. 1 \<le> j \<and> j < 2 \<longrightarrow> ?body j = (Raised ClientError, [HttpGet url params])"
  proof (intro allI impI)
    fix j :: nat assume "1 \<le> j \<and> j < 2"
    then have "j = 1" by simp
    then show "?body j = (Raised ClientError, [HttpGet url params])"
      using assms(1) by (simp add: fetch_data_attempt_fails)
  qed
  have "?body 2 = (Returned (Some doc), [HttpGet url params])"
    using assms(2) by (simp add: fetch_data_attempt_def)
  then have last: "retry 5 ?w True ?body 2 = (Returned (Some doc), [HttpGet url params])"
    by (rule retry_returned)
  have step: "retry 5 ?w True ?body 1 =
         (fst (retry 5 ?w True ?body 2),
          concat (map (\<lambda>j. [HttpGet url params] @ [Sleep (?w j)]) [1..<2]) @
          snd (retry 5 ?w True ?body 2))"
    by (rule retry_fail_prefix) (use fails in auto)
  have upt: "[1..<2] = [1::nat]" by (simp add: upt_conv_Cons)
  have w1: "?w 1 = 1" by (simp add: wait_exponential_def)
  show ?thesis
    by (simp only: fetch_data_def step last upt w1 fst_conv snd_conv list.map concat.simps
                   append_Cons append_Nil)
qed

text \<open>
  Claim C3. A response with a status other than 200 ends the call at once: a warning is
  logged, the empty result is returned and no further attempt is made (also when it
  arrives at the \<open>k\<close>-th attempt, the earlier ones having failed at the transport). When
  the connection fails on all five attempts the call raises the transport error, having
  waited 1, 2, 4 and 8 seconds between the attempts. Whatever the service does, the call
  makes between one and five requests, and the waits between them are the first of
  1, 2, 4, 8 seconds: starting at one second, doubling, below the cap of 60.
\<close>

theorem fetch_data_policy:
  "(\<forall>k st body.
      1 \<le> k \<and> k \<le> 5 \<and>
      (\<forall>j. 1 \<le> j \<and> j < k \<longrightarrow> session url params j = ConnectionFails) \<and>
      session url params k = Responds st body \<and> st \<noteq> 200 \<longrightarrow>
      fetch_data session url params =
        (Returned None,
         concat (map (\<lambda>j. [HttpGet url params, Sleep (2 ^ (j - 1))]) [1..<k]) @
         [HttpGet url params,
          LogWarning (''Failed to fetch data from '' @ url @ '', status code: '' @ str_nat st)]))
   \<and> ((\<forall>j. 1 \<le> j \<and> j \<le> 5 \<longrightarrow> session url params j = ConnectionFails) \<longrightarrow>
      fetch_data session url params =
        (Raised ClientError,
         [HttpGet url params, Sleep 1, HttpGet url params, Sleep 2, HttpGet url params,
          Sleep 4, HttpGet url params, Sleep 8, HttpGet url params]))
   \<and> (\<exists>m<5. length (filter is_get (snd (fetch_data session url params))) = Suc m \<and>
             sleeps (snd (fetch_data session url params)) = take m [1, 2, 4, 8])"
proof (intro conjI allI impI)
  fix k st body
  assume a: "1 \<le> k \<and> k \<le> 5 \<and>
      (\<forall>j. 1 \<le> j \<and> j < k \<longrightarrow> session url params j = ConnectionFails) \<and>
      session url params k = Responds st body \<and> st \<noteq> 200"
  let ?body = "fetch_data_attempt session url params"
  let ?w = "wait_exponential 1 1 60"
  have fails: "\<forall>j. 1 \<le> j \<and> j < k \<longrightarrow> ?body j = (Raised ClientError, [HttpGet url params])"
    using a by (simp add: fetch_data_attempt_fails)
  have last: "retry 5 ?w True ?body k =
      (Returned None,
       [HttpGet url params,
        LogWarning (''Failed to fetch data from '' @ url @ '', status code: '' @ str_nat st)])"
    using a by (intro retry_returned fetch_data_attempt_status) auto
  have waits: "map (\<lambda>j. [HttpGet url params] @ [Sleep (?w j)]) [1..<k] =
               map (\<lambda>j. [HttpGet url params, Sleep (2 ^ (j - 1))]) [1..<k]"
  proof (intro map_cong refl)
    fix j assume "j \<in> set [1..<k]"
    then have "1 \<le> j" "j \<le> 6" using a by auto
    then have "?w j = 2 ^ (j - 1)" by (rule wait_exponential_value)
    then show "[HttpGet url params] @ [Sleep (?w j)] = [HttpGet url params, Sleep (2 ^ (j - 1))]"
      by (simp only: append_Cons append_Nil)
  qed
  have step: "retry 5 ?w True ?body 1 =
         (fst (retry 5 ?w True ?body k),
          concat (map (\<lambda>j. [HttpGet url params] @ [Sleep (?w j)]) [1..<k]) @
          snd (retry 5 ?w True ?body k))"
    by (rule retry_fail_prefix) (use fails a in auto)
  show "fetch_data session url params =
        (Returned None,
         concat (map (\<lambda>j. [HttpGet url params, Sleep (2 ^ (j - 1))]) [1..<k]) @
         [HttpGet url params,
          LogWarning (''Failed to fetch data from '' @ url @ '', status code: '' @ str_nat st)])"
    by (simp only: fetch_data_def step last waits fst_conv snd_conv)
next
  assume "\<forall>j. 1 \<le> j \<and> j \<le> 5 \<longrightarrow> session url params j = ConnectionFails"
  then show "fetch_data session url params =
        (Raised ClientError,
         [HttpGet url params, Sleep 1, HttpGet url params, Sleep 2, HttpGet url params,
          Sleep 4, HttpGet url params, Sleep 8, HttpGet url params])"
    by (rule fetch_data_exhausted)
next
  let ?body = "fetch_data_attempt session url params"
  let ?w = "wait_exponential 1 1 60"
  from retry_counts[where body="?body" and s=5 and n=1 and w="?w" and r=True]
       fetch_data_attempt_one_get[of session url params]
  obtain m where m: "m \<le> 4"
     "length (filter is_get (snd (retry 5 ?w True ?body 1))) = Suc m"
     "sleeps (snd (retry 5 ?w True ?body 1)) = map ?w [1..<1 + m]"
    by auto
  then show "\<exists>m<5. length (filter is_get (snd (fetch_data session url params))) = Suc m \<and>
             sleeps (snd (fetch_data session url params)) = take m [1, 2, 4, 8]"
    using waits_upto[of m] by (intro exI[of _ m]) (simp add: fetch_data_def)
qed

text \<open>
  At a service that drops the connection twice and then answers 503: two waits, of 1 and
  2 seconds, three requests, a warning and the empty result.
\<close>

theorem fetch_data_policy_witness:
  "fetch_data (\<lambda>u p n. if n < 3 then ConnectionFails else Responds 503 (None :: unit option))
      ''https://coverartarchive.org/release/r1'' [] =
     (Returned None,
      [HttpGet ''https://coverartarchive.org/release/r1'' [], Sleep 1,
       HttpGet ''https://coverartarchive.org/release/r1'' [], Sleep 2,
       HttpGet ''https://coverartarchive.org/release/r1'' [],
       LogWarning ''Failed to fetch data from https://coverartarchive.org/release/r1, status code: 503''])"
proof -
  let ?s = "\<lambda>(u::string) (p::params) (n::nat). if n < 3 then ConnectionFails else Responds 503 (None :: unit option)"
  have "str_nat 503 = ''503''" by code_simp
  moreover have "[1..<3] = [1, 2::nat]" by (simp add: upt_conv_Cons)
  ultimately show ?thesis
    using fetch_data_policy[of ?s "''https://coverartarchive.org/release/r1''" "[]",
            THEN conjunct1, rule_format, of 3 503 None]
    by simp
qed

subsection \<open>Evaluation of the stages\<close>

lemma py_range_empty: "stop \<le> start \<Longrightarrow> py_range start stop step = []"
  by (subst py_range.simps) simp

lemma py_range_step:
  "0 < step \<Longrightarrow> start < stop \<Longrightarrow>
   py_range start stop step = start # py_range (start + step) stop step"
  by (subst py_range.simps) simp

lemma fetch_release_groups_exhausted:
  assumes "\<forall>j. 1 \<le> j \<and> j \<le> 5 \<longrightarrow>
             catalog_srv w ''https://musicbrainz.org/ws/2/release-group/''
               (release_group_params artist album offset limit) j = ConnectionFails"
  shows "fetch_release_groups w artist album offset limit =
     (Raised ClientError,
      [HttpGet ''https://musicbrainz.org/ws/2/release-group/''
         (release_group_params artist album offset limit), Sleep 1,
       HttpGet ''https://musicbrainz.org/ws/2/release-group/''
         (release_group_params artist album offset limit), Sleep 2,
       HttpGet ''https://musicbrainz.org/ws/2/release-group/''
         (release_group_params artist album offset limit), Sleep 4,
       HttpGet ''https://musicbrainz.org/ws/2/release-group/''
         (release_group_params artist album offset limit), Sleep 8,
       HttpGet ''https://musicbrainz.org/ws/2/release-group/''
         (release_group_params artist album offset limit)])"
  using fetch_data_exhausted[where session="catalog_srv w", OF assms]
  by (simp add: fetch_release_groups_def)

lemma fetch_release_groups_first_ok:
  assumes "catalog_srv w ''https://musicbrainz.org/ws/2/release-group/''
             (release_group_params artist album offset limit) 1 = Responds 200 (Some page)"
  shows "fetch_release_groups w artist album offset limit =
     (Returned (Some page),
      [HttpGet ''https://musicbrainz.org/ws/2/release-group/''
         (release_group_params artist album offset limit)])"
  using fetch_data_first_ok[where session="catalog_srv w", OF assms]
  by (simp add: fetch_release_groups_def)

lemma fetch_cover_art_urls_exhausted:
  assumes "\<forall>j. 1 \<le> j \<and> j \<le> 5 \<longrightarrow>
             archive_srv w (''https://coverartarchive.org/release/'' @ release_id) [] j =
               ConnectionFails"
  shows "fetch_cover_art_urls w release_id =
     (Raised ClientError,
      [HttpGet (''https://coverartarchive.org/release/'' @ release_id) [], Sleep 1,
       HttpGet (''https://coverartarchive.org/release/'' @ release_id) [], Sleep 2,
       HttpGet (''https://coverartarchive.org/release/'' @ release_id) [], Sleep 4,
       HttpGet (''https://coverartarchive.org/release/'' @ release_id) [], Sleep 8,
       HttpGet (''https://coverartarchive.org/release/'' @ release_id) []])"
  using fetch_data_exhausted[where session="archive_srv w", OF assms]
  by (simp add: fetch_cover_art_urls_def)

lemma fetch_cover_art_urls_first_ok:
  assumes "archive_srv w (''https://coverartarchive.org/release/'' @ release_id) [] 1 =
             Responds 200 (Some (Object doc))"
  shows "fetch_cover_art_urls w release_id =
     (Returned (release_id, front_urls (get_or j_images [] (Some doc))),
      [HttpGet (''https://coverartarchive.org/release/'' @ release_id) []])"
  using fetch_data_first_ok[where session="archive_srv w", OF assms]
  by (simp add: fetch_cover_art_urls_def as_dict_def)

lemma page_result_first_ok:
  assumes "catalog_srv w ''https://musicbrainz.org/ws/2/release-group/''
             (release_group_params artist album offset limit) 1 =
           Responds 200 (Some (Object page))"
  shows "page_result (fetch_release_groups w artist album offset limit) =
     (Returned (Some page),
      [HttpGet ''https://musicbrainz.org/ws/2/release-group/''
         (release_group_params artist album offset limit)])"
  using fetch_release_groups_first_ok[OF assms]
  by (simp add: page_result_def as_dict_def)

text \<open>
  A 200 answer with an empty body: \<^verbatim>\<open>response.json()\<close> gives \<^verbatim>\<open>None\<close>, which
  \<^verbatim>\<open>fetch_data\<close> returns after its one request; the caller's \<^verbatim>\<open>.get\<close> raises.
\<close>

lemma empty_body_is_returned_at_once:
  assumes "catalog_srv w ''https://musicbrainz.org/ws/2/release-group/''
             (release_group_params artist album 0 100) 1 = Responds 200 (Some NonObject)"
  shows "fetch_release_groups w artist album 0 100 =
           (Returned (Some NonObject),
            [HttpGet ''https://musicbrainz.org/ws/2/release-group/''
               (release_group_params artist album 0 100)])"
    and "get_release_groups w order artist album =
           (Raised AttributeError,
            [HttpGet ''https://musicbrainz.org/ws/2/release-group/''
               (release_group_params artist album 0 100)])"
proof -
  show f: "fetch_release_groups w artist album 0 100 =
           (Returned (Some NonObject),
            [HttpGet ''https://musicbrainz.org/ws/2/release-group/''
               (release_group_params artist album 0 100)])"
    using assms by (rule fetch_release_groups_first_ok)
  show "get_release_groups w order artist album =
           (Raised AttributeError,
            [HttpGet ''https://musicbrainz.org/ws/2/release-group/''
               (release_group_params artist album 0 100)])"
    by (simp add: get_release_groups_def f page_result_def as_dict_def)
qed

lemma await_all_first_raised:
  "fst t = Raised e \<Longrightarrow> fst (await_all (t # rest)) = Raised e"
  by (cases t) simp

lemma front_urls_front_cover: "front_urls (get_or j_images [] (Some (front_cover u))) = [u]"
  by (simp add: front_urls_def get_or_def front_cover_def)

lemma download_returns: "\<exists>r tr. download w arrival url lp skip n = (Returned r, tr)"
  by (auto simp: download_def Let_def split: http_attempt.splits option.splits)

lemma download_None:
  "download w arrival url None skip_existing n =
     (case image_srv w url [] n of
        ConnectionFails \<Rightarrow> (Returned None, [HttpGet url [], image_error url ClientError])
      | Responds st body \<Rightarrow>
          (case body of
             None \<Rightarrow> (Returned None, [HttpGet url [], image_error url UnidentifiedImageError])
           | Some (width, height) \<Rightarrow>
               (Returned (Some \<lparr>d_url = url, d_dimensions = (width, height),
                               d_resolution = width * height, d_local_path = None\<rparr>),
                [HttpGet url []])))"
  by (simp add: download_def Let_def split: http_attempt.splits option.splits)

lemma fetch_image_details_unset:
  assumes "\<not> truthy save_path"
  shows "fetch_image_details w arrival url save_path skip_existing =
           download w arrival url None skip_existing 1"
proof -
  have lp: "local_path_of save_path url = None"
    using assms by (auto simp: truthy_def local_path_of_def split: option.splits)
  obtain r tr where d: "download w arrival url None skip_existing 1 = (Returned r, tr)"
    using download_returns by blast
  have "fetch_image_details_attempt w arrival url save_path skip_existing 1 = (Returned r, tr)"
    using lp d by (simp add: fetch_image_details_attempt_def)
  from retry_returned[where body="fetch_image_details_attempt w arrival url save_path skip_existing"
         and n=1, OF this] d
  show ?thesis
    by (simp add: fetch_image_details_def)
qed

subsection \<open>Transport failures in the fan-out stages\<close>

text \<open>
  Claim C2 (the code departs from it). \<^verbatim>\<open>fetch_release_groups\<close> and
  \<^verbatim>\<open>fetch_cover_art_urls\<close> catch \<^verbatim>\<open>RetryError\<close>, but \<^verbatim>\<open>fetch_data\<close> is decorated with
  \<^verbatim>\<open>reraise=True\<close> and so raises the transport error itself after the fifth attempt.
  The handlers never match: a page or a release id whose connection fails five times
  raises out of its task, out of the stage that awaits it, out of the album's pipeline
  and out of \<^verbatim>\<open>asyncio.gather\<close> in \<^verbatim>\<open>main\<close>.
\<close>

theorem transport_failure_escapes_the_stage:
  "fetch_release_groups (w\<lparr>catalog_srv := \<lambda>u p n. ConnectionFails\<rparr>) artist album offset limit =
     (Raised ClientError,
      [HttpGet ''https://musicbrainz.org/ws/2/release-group/''
         (release_group_params artist album offset limit), Sleep 1,
       HttpGet ''https://musicbrainz.org/ws/2/release-group/''
         (release_group_params artist album offset limit), Sleep 2,
       HttpGet ''https://musicbrainz.org/ws/2/release-group/''
         (release_group_params artist album offset limit), Sleep 4,
       HttpGet ''https://musicbrainz.org/ws/2/release-group/''
         (release_group_params artist album offset limit), Sleep 8,
       HttpGet ''https://musicbrainz.org/ws/2/release-group/''
         (release_group_params artist album offset limit)])
   \<and> fst (fetch_cover_art_urls (w\<lparr>archive_srv := \<lambda>u p n. ConnectionFails\<rparr>) release_id) =
       Raised ClientError
   \<and> fst (get_release_groups dropping_catalog [] ''Boards of Canada'' ''Geogaddi'') =
       Raised ClientError
   \<and> fst (get_cover_art_urls dropping_archive [] [''r1'', ''r2'']) = Raised ClientError
   \<and> fst (main dropping_archive one_album False) = Raised ClientError"
proof (intro conjI)
  show "fetch_release_groups (w\<lparr>catalog_srv := \<lambda>u p n. ConnectionFails\<rparr>) artist album offset limit =
     (Raised ClientError,
      [HttpGet ''https://musicbrainz.org/ws/2/release-group/''
         (release_group_params artist album offset limit), Sleep 1,
       HttpGet ''https://musicbrainz.org/ws/2/release-group/''
         (release_group_params artist album offset limit), Sleep 2,
       HttpGet ''https://musicbrainz.org/ws/2/release-group/''
         (release_group_params artist album offset limit), Sleep 4,
       HttpGet ''https://musicbrainz.org/ws/2/release-group/''
         (release_group_params artist album offset limit), Sleep 8,
       HttpGet ''https://musicbrainz.org/ws/2/release-group/''
         (release_group_params artist album offset limit)])"
    by (rule fetch_release_groups_exhausted) simp
  show "fst (fetch_cover_art_urls (w\<lparr>archive_srv := \<lambda>u p n. ConnectionFails\<rparr>) release_id) =
       Raised ClientError"
    by (subst fetch_cover_art_urls_exhausted) simp_all
  have p0: "page_result (fetch_release_groups dropping_catalog ''Boards of Canada'' ''Geogaddi'' 0 100) =
     (Returned (Some (two_releases\<lparr>j_count := Some 150\<rparr>)),
      [HttpGet ''https://musicbrainz.org/ws/2/release-group/''
         (release_group_params ''Boards of Canada'' ''Geogaddi'' 0 100)])"
    by (rule page_result_first_ok)
       (simp add: dropping_catalog_def geogaddi_def release_group_params_def)
  have p1: "fst (fetch_release_groups dropping_catalog ''Boards of Canada'' ''Geogaddi'' 100 100) =
     Raised ClientError"
    by (subst fetch_release_groups_exhausted)
       (simp_all add: dropping_catalog_def geogaddi_def release_group_params_def)
  have r: "py_range 100 150 100 = [100]"
    by (simp add: py_range_step py_range_empty)
  show "fst (get_release_groups dropping_catalog [] ''Boards of Canada'' ''Geogaddi'') =
       Raised ClientError"
  proof -
    have "fst (page_result (fetch_release_groups dropping_catalog ''Boards of Canada''
                 ''Geogaddi'' 100 100)) = Raised ClientError"
      using p1
      by (cases "fetch_release_groups dropping_catalog ''Boards of Canada'' ''Geogaddi'' 100 100")
         (simp add: page_result_def)
    then show ?thesis
      by (cases "page_result (fetch_release_groups dropping_catalog ''Boards of Canada''
                   ''Geogaddi'' 100 100)")
         (simp add: get_release_groups_def p0 get_or_def two_releases_def r)
  qed
  have a1: "fst (fetch_cover_art_urls dropping_archive ''r1'') = Raised ClientError"
    by (subst fetch_cover_art_urls_exhausted)
       (simp_all add: dropping_archive_def geogaddi_def)
  then show c: "fst (get_cover_art_urls dropping_archive [] [''r1'', ''r2'']) = Raised ClientError"
    by (cases "fetch_cover_art_urls dropping_archive ''r1''")
       (simp add: get_cover_art_urls_def)
  have g: "get_release_groups dropping_archive [] ''Boards of Canada'' ''Geogaddi'' =
     (Returned (the (j_release_groups two_releases)),
      [HttpGet ''https://musicbrainz.org/ws/2/release-group/''
         (release_group_params ''Boards of Canada'' ''Geogaddi'' 0 100)])"
    by (simp add: get_release_groups_def page_result_first_ok dropping_archive_def
          geogaddi_def get_or_def two_releases_def py_range_empty)
  have compl: "completion dropping_archive = (\<lambda>s a b. [])"
    by (simp add: dropping_archive_def geogaddi_def)
  have "fst (process_artist_album dropping_archive ''Boards of Canada'' ''Geogaddi''
               None None False ''.'' True) = Raised ClientError"
    using c
    by (cases "get_cover_art_urls dropping_archive [] [''r1'', ''r2'']")
       (simp add: process_artist_album_def compl g release_ids_of_def matching_def truthy_def
          two_releases_def)
  then show "fst (main dropping_archive one_album False) = Raised ClientError"
    by (cases "process_artist_album dropping_archive ''Boards of Canada'' ''Geogaddi''
               None None False ''.'' True")
       (simp add: main_def pipelines_def one_album_def)
qed

subsection \<open>One image URL\<close>

text \<open>
  Claim C4 (the code departs from it). \<^verbatim>\<open>fetch_image_details\<close> carries the retry
  decorator, but the download sits inside \<^verbatim>\<open>try ... except Exception\<close>, which turns a
  failed connection into the empty result before the decorator can see an exception.
  At a server that drops the first connection and would answer the second, the source
  makes one request, logs the error and gives the URL up: no wait, no second attempt.
\<close>

theorem image_download_is_attempted_once:
  "fetch_image_details
     (w\<lparr>image_srv := \<lambda>u p n. if n = 1 then ConnectionFails else Responds 200 (Some (wd, ht))\<rparr>)
     arrival url None skip_existing =
   (Returned None, [HttpGet url [], image_error url ClientError])"
  by (simp add: fetch_image_details_unset truthy_def download_None)

text \<open>
  Claim C8. With a save path, \<^verbatim>\<open>skip_existing\<close> on and a file at
  \<^verbatim>\<open>save_path/basename(url)\<close> when the call starts, no request is made for the URL,
  and when the file is an image of \<open>wd\<close> by \<open>ht\<close> pixels the result is the detail
  measured from it, with its local path; the only effects are the existence test and the
  opening of the file, so running again gives the same result, whatever the other tasks
  write in the meantime.
\<close>

theorem cache_hit_skips_network:
  assumes sp: "sp \<noteq> []" and f: "files w (path_join sp (basename url)) = Some content"
  shows "filter is_get (snd (fetch_image_details w arrival url (Some sp) True)) = []
       \<and> (\<forall>wd ht. content = Some (wd, ht) \<longrightarrow>
            fetch_image_details w arrival url (Some sp) True =
              (Returned (Some \<lparr>d_url = url, d_dimensions = (wd, ht), d_resolution = wd * ht,
                               d_local_path = Some (path_join sp (basename url))\<rparr>),
               [PathExists (path_join sp (basename url)),
                ImageOpen (path_join sp (basename url))]))"
proof (cases content)
  case None
  let ?lp = "path_join sp (basename url)"
  have "\<forall>j. 1 \<le> j \<and> j \<le> 5 \<longrightarrow>
          fetch_image_details_attempt w arrival url (Some sp) True j =
            (Raised UnidentifiedImageError, [PathExists ?lp, ImageOpen ?lp])"
    using sp f None by (simp add: fetch_image_details_attempt_def local_path_of_def)
  from retry_exhausted[OF this] None show ?thesis
    by (simp add: fetch_image_details_def is_get_def)
next
  case (Some dims)
  let ?lp = "path_join sp (basename url)"
  obtain wd ht where dims: "dims = (wd, ht)" by (cases dims)
  have "fetch_image_details_attempt w arrival url (Some sp) True 1 =
          (Returned (Some \<lparr>d_url = url, d_dimensions = (wd, ht), d_resolution = wd * ht,
                           d_local_path = Some ?lp\<rparr>),
           [PathExists ?lp, ImageOpen ?lp])"
    using sp f Some dims by (simp add: fetch_image_details_attempt_def local_path_of_def)
  from retry_returned[where body="fetch_image_details_attempt w arrival url (Some sp) True" and n=1, OF this]
       Some dims
  show ?thesis
    by (simp add: fetch_image_details_def is_get_def)
qed

text \<open>
  The image of the scenario that is on disk: measured from the file, without a request.
\<close>

theorem cache_hit_skips_network_witness:
  "fetch_image_details geogaddi (files geogaddi) ''http://img/a.jpg'' (Some ''covers'') True =
     (Returned (Some \<lparr>d_url = ''http://img/a.jpg'', d_dimensions = (500, 500),
                      d_resolution = 250000, d_local_path = Some ''covers/a.jpg''\<rparr>),
      [PathExists ''covers/a.jpg'', ImageOpen ''covers/a.jpg''])
   \<and> filter is_get (snd (fetch_image_details geogaddi (files geogaddi) ''http://img/a.jpg'' (Some ''covers'') True))
       = []"
proof -
  have p: "path_join ''covers'' (basename ''http://img/a.jpg'') = ''covers/a.jpg''"
    by (simp add: path_join_def basename_def)
  have f: "files geogaddi (path_join ''covers'' (basename ''http://img/a.jpg'')) =
             Some (Some (500, 500))"
    by (simp add: p geogaddi_def)
  from cache_hit_skips_network[OF _ f, of "files geogaddi"] p show ?thesis
    by (simp add: is_get_def)
qed

text \<open>
  Claim C10. Without a save path (\<^verbatim>\<open>None\<close> or the empty string) the result and the
  effects do not depend on \<^verbatim>\<open>skip_existing\<close> nor on the files on disk, when the call
  starts or when the image arrives; exactly one
  request is made for the URL; the disk is never touched; and a detail that is returned
  has no local path.
\<close>

theorem unset_save_path_ignores_cache:
  assumes "\<not> truthy save_path"
  shows "fetch_image_details w arrival url save_path skip_existing =
           fetch_image_details (w\<lparr>files := fs\<rparr>) arrival' url save_path skip_existing'
       \<and> filter is_get (snd (fetch_image_details w arrival url save_path skip_existing)) = [HttpGet url []]
       \<and> filter touches_disk (snd (fetch_image_details w arrival url save_path skip_existing)) = []
       \<and> (\<forall>d. fst (fetch_image_details w arrival url save_path skip_existing) = Returned (Some d)
              \<longrightarrow> d_local_path d = None)"
  unfolding fetch_image_details_unset[OF assms] download_None
  by (auto simp: is_get_def touches_disk_def image_error_def split: http_attempt.splits option.splits)

text \<open>
  The cached image of the scenario, asked for without a save path: it is downloaded,
  whether or not existing files are to be skipped.
\<close>

theorem unset_save_path_ignores_cache_witness:
  "fetch_image_details geogaddi (files geogaddi) ''http://img/a.jpg'' None True =
     fetch_image_details (geogaddi\<lparr>files := \<lambda>p. None\<rparr>) (\<lambda>p. None) ''http://img/a.jpg'' None False
   \<and> fetch_image_details geogaddi (files geogaddi) ''http://img/a.jpg'' None True =
       (Returned (Some \<lparr>d_url = ''http://img/a.jpg'', d_dimensions = (500, 500),
                        d_resolution = 250000, d_local_path = None\<rparr>),
        [HttpGet ''http://img/a.jpg'' []])"
proof -
  have n: "\<not> truthy None" by (simp add: truthy_def)
  have "fetch_image_details geogaddi (files geogaddi) ''http://img/a.jpg'' None True =
       (Returned (Some \<lparr>d_url = ''http://img/a.jpg'', d_dimensions = (500, 500),
                        d_resolution = 250000, d_local_path = None\<rparr>),
        [HttpGet ''http://img/a.jpg'' []])"
    by (simp add: fetch_image_details_unset[OF n] download_None geogaddi_def)
  with unset_save_path_ignores_cache[OF n, of geogaddi "files geogaddi" "''http://img/a.jpg''" True
         "\<lambda>p. None" "\<lambda>p. None" False]
  show ?thesis by simp
qed

subsection \<open>Completion order and ranking\<close>

lemma as_completed_mset: "mset (as_completed picks ts) = mset ts"
proof (induction picks ts rule: as_completed.induct)
  case (3 p picks t ts)
  let ?xs = "t # ts"
  let ?i = "p mod length ?xs"
  let ?rest = "take ?i ?xs @ drop (Suc ?i) ?xs"
  have i: "?i < length ?xs" by simp
  have ih: "mset (as_completed picks ?rest) = mset ?rest"
    by (rule 3[OF refl])
  have unfold: "as_completed (p # picks) ?xs = ?xs ! ?i # as_completed picks ?rest"
    by (simp only: as_completed.simps Let_def)
  have "mset ?xs = mset (take ?i ?xs @ ?xs ! ?i # drop (Suc ?i) ?xs)"
    using id_take_nth_drop[OF i] by simp
  also have "\<dots> = add_mset (?xs ! ?i) (mset ?rest)"
    by (simp only: mset_append mset.simps union_mset_add_mset_right)
  finally have "mset ?xs = add_mset (?xs ! ?i) (mset ?rest)" .
  then show ?case
    by (simp only: unfold mset.simps ih)
qed simp_all

lemma await_all_trace: "snd (await_all ts) = concat (map snd ts)"
  by (induction ts rule: await_all.induct) (auto split: prod.splits outcome.splits)

lemma await_all_Returned:
  "await_all ts = (Returned vs, tr) \<Longrightarrow>
   map fst ts = map Returned vs \<and> tr = concat (map snd ts)"
proof (induction ts arbitrary: vs tr rule: await_all.induct)
  case 1
  then show ?case by simp
next
  case (2 v tr0 rest)
  then show ?case
    by (cases "await_all rest"; cases "fst (await_all rest)") auto
next
  case (3 e tr0 rest)
  then show ?case by simp
qed

lemma await_all_all_returned:
  "map fst ts = map Returned vs \<Longrightarrow> await_all ts = (Returned vs, concat (map snd ts))"
proof (induction ts arbitrary: vs)
  case Nil
  then show ?case by simp
next
  case (Cons t ts)
  then obtain v vs' where vs: "vs = v # vs'" by (cases vs) auto
  obtain r tr where t: "t = (r, tr)" by (cases t)
  with Cons vs show ?case by auto
qed

lemma await_all_permuted:
  assumes "await_all ts = (Returned vs, tr)" and "mset (map fst ts') = mset (map fst ts)"
  shows "\<exists>vs' tr'. await_all ts' = (Returned vs', tr') \<and> mset vs' = mset vs"
proof -
  define g :: "'a outcome \<Rightarrow> 'a" where "g = (\<lambda>r. case r of Returned v \<Rightarrow> v)"
  from await_all_Returned[OF assms(1)] have m: "map fst ts = map Returned vs" by simp
  have ms: "mset (map fst ts') = mset (map Returned vs)"
    using assms(2) by (simp only: m)
  define vs' where "vs' = map g (map fst ts')"
  have "\<forall>r \<in> set (map fst ts'). \<exists>v. r = Returned v"
  proof
    fix r assume "r \<in> set (map fst ts')"
    then have "r \<in> set (map Returned vs)" using mset_eq_setD[OF ms] by simp
    then show "\<exists>v. r = Returned v" by auto
  qed
  then have e: "map fst ts' = map Returned vs'"
    unfolding vs'_def by (induction ts') (auto simp: g_def)
  have "mset vs' = image_mset g (mset (map fst ts'))"
    unfolding vs'_def by (simp only: mset_map)
  also have "\<dots> = image_mset g (mset (map Returned vs))"
    by (simp only: ms)
  also have "\<dots> = mset vs"
    by (simp add: g_def multiset.map_comp comp_def)
  finally have p: "mset vs' = mset vs" .
  from await_all_all_returned[OF e] p show ?thesis by blast
qed

lemma valid_details_mset:
  "mset xs = mset ys \<Longrightarrow> mset (valid_details xs) = mset (valid_details ys)"
proof -
  have "\<And>zs. mset (valid_details zs) =
          (\<Sum>x\<in>#mset zs. mset (case x of None \<Rightarrow> [] | Some d \<Rightarrow> [d]))"
    by (induct_tac zs) (simp_all add: valid_details_def)
  then show "mset xs = mset ys \<Longrightarrow> mset (valid_details xs) = mset (valid_details ys)"
    by simp
qed

lemma sorted_reverse_mset: "mset (sorted_reverse key xs) = mset xs"
  by (simp add: sorted_reverse_def)

lemma sorted_reverse_sorted:
  "sorted_wrt (\<lambda>a b. key b \<le> key a) (sorted_reverse key xs)"
proof -
  have "sorted (map (\<lambda>x. - int (key x)) (sort_key (\<lambda>x. - int (key x)) xs))"
    by (rule sorted_sort_key)
  then show ?thesis
    by (simp add: sorted_map sorted_reverse_def)
qed

lemma sorted_reverse_stable:
  "filter (\<lambda>x. key x = k) (sorted_reverse key xs) = filter (\<lambda>x. key x = k) xs"
  using sort_key_stable[of "\<lambda>x. - int (key x)" "- int k" xs]
  by (simp add: sorted_reverse_def)

lemma sorted_reverse_keys:
  assumes "mset xs = mset ys"
  shows "map key (sorted_reverse key xs) = map key (sorted_reverse key ys)"
proof -
  let ?f = "\<lambda>x. - int (key x)"
  have a: "\<And>zs. map ?f (sort_key ?f zs) = sort (map ?f zs)"
    by (rule sym, rule properties_for_sort) (simp_all add: sorted_sort_key)
  have "mset (map ?f xs) = mset (map ?f ys)" using assms by (simp only: mset_map)
  then have "sort (map ?f xs) = sort (map ?f ys)"
    by (intro properties_for_sort) simp_all
  then have "map ?f (sorted_reverse key xs) = map ?f (sorted_reverse key ys)"
    by (simp add: a sorted_reverse_def)
  then have "map (\<lambda>z. nat (- z)) (map ?f (sorted_reverse key xs)) =
             map (\<lambda>z. nat (- z)) (map ?f (sorted_reverse key ys))"
    by simp
  then show ?thesis by (simp add: comp_def)
qed

lemma sorted_reverse_distinct_keys:
  assumes "mset xs = mset ys" and "distinct (map key (sorted_reverse key xs))"
  shows "sorted_reverse key xs = sorted_reverse key ys"
proof -
  let ?f = "\<lambda>x. - int (key x)"
  have "mset (map key (sorted_reverse key xs)) = mset (map key xs)"
    by (simp add: sorted_reverse_mset)
  then have "distinct (map key xs)"
    using assms(2) mset_eq_imp_distinct_iff by blast
  then have "inj_on key (set xs)" by (simp add: distinct_map)
  moreover have "set ys = set xs"
    using assms(1) by (rule mset_eq_setD[symmetric])
  ultimately have inj: "inj_on ?f (set ys)"
    by (auto simp: inj_on_def)
  have "sort_key ?f ys = sort_key ?f xs"
    by (rule sort_key_inj_key_eq) (simp_all add: assms(1) inj sorted_sort_key)
  then show ?thesis by (simp add: sorted_reverse_def)
qed

lemma as_completed_any_order:
  "mset ys = mset ts \<Longrightarrow> \<exists>picks. as_completed picks ts = ys"
proof (induction ys arbitrary: ts)
  case Nil
  then show ?case by simp
next
  case (Cons y ys)
  then have "y \<in> set ts" by (metis list.set_intros(1) mset_eq_setD)
  then obtain i where i: "i < length ts" "ts ! i = y" by (auto simp: in_set_conv_nth)
  let ?rest = "take i ts @ drop (Suc i) ts"
  have "mset ts = add_mset y (mset ?rest)"
    using id_take_nth_drop[OF i(1)] i(2)
    by (metis mset.simps(2) mset_append union_mset_add_mset_right)
  then have "mset ys = mset ?rest" using Cons.prems by simp
  from Cons.IH[OF this] obtain picks where p: "as_completed picks ?rest = ys" by blast
  obtain t ts' where ts: "ts = t # ts'" using i(1) by (cases ts) auto
  have "as_completed (i # picks) ts = y # ys"
    unfolding ts using i p by (simp add: ts Let_def)
  then show ?case by blast
qed

lemma find_image_details_Returned:
  "find_image_details w order urls save_path skip_existing = (Returned ds, tr) \<Longrightarrow>
   \<exists>details.
      await_all (materialize w (files w) (as_completed order urls) save_path skip_existing) =
        (Returned details, tr) \<and>
      ds = sorted_reverse d_resolution (valid_details details)"
  by (auto simp: find_image_details_def split: prod.splits outcome.splits)

text \<open>
  What a task of the image stage returns depends on the disk it meets at arrival only
  through a save that fails: the effects differ (the task that arrives first saves), the
  result does not.
\<close>

lemma retry_fst_cong:
  assumes "\<And>n. fst (body n) = fst (body' n)"
  shows "fst (retry k wait re body n) = fst (retry k wait re body' n)"
proof (induction "k - n" arbitrary: n rule: less_induct)
  case less
  obtain r tr where b: "body n = (r, tr)" by (cases "body n")
  obtain r' tr' where b': "body' n = (r', tr')" by (cases "body' n")
  have rr: "r' = r" using assms[of n] b b' by simp
  show ?case
  proof (cases r)
    case (Returned v)
    then show ?thesis
      using b b' rr
      by (simp add: retry.simps[of k wait re body n] retry.simps[of k wait re body' n])
  next
    case (Raised e)
    show ?thesis
    proof (cases "k \<le> n")
      case True
      then show ?thesis
        using b b' rr Raised
        by (simp add: retry.simps[of k wait re body n] retry.simps[of k wait re body' n])
    next
      case False
      then have "k - Suc n < k - n" by simp
      from less[OF this]
      have "fst (retry k wait re body (Suc n)) = fst (retry k wait re body' (Suc n))" .
      then show ?thesis
        using False b b' rr Raised
        by (simp add: retry.simps[of k wait re body n] retry.simps[of k wait re body' n]
              case_prod_beta)
    qed
  qed
qed

lemma fetch_image_details_fst_arrival:
  assumes "(\<forall>url lp. \<not> unsavable w url lp) \<or> \<not> truthy save_path"
  shows "fst (fetch_image_details w arrival url save_path skip_existing) =
         fst (fetch_image_details w arrival' url save_path skip_existing)"
  unfolding fetch_image_details_def
proof (rule retry_fst_cong)
  fix n
  show "fst (fetch_image_details_attempt w arrival url save_path skip_existing n) =
        fst (fetch_image_details_attempt w arrival' url save_path skip_existing n)"
  proof (cases "local_path_of save_path url")
    case None
    then show ?thesis by (simp add: fetch_image_details_attempt_def download_None)
  next
    case (Some lp)
    then have "truthy save_path"
      by (auto simp: local_path_of_def truthy_def split: option.splits if_splits)
    with assms have u: "\<not> unsavable w url lp" by simp
    have d: "fst (download w arrival url (Some lp) skip_existing n) =
             fst (download w arrival' url (Some lp) skip_existing n)"
      using u by (simp add: download_def Let_def split: http_attempt.splits option.splits)
    show ?thesis
      using d by (cases skip_existing)
        (simp_all add: fetch_image_details_attempt_def Some case_prod_beta split: option.splits)
  qed
qed

lemma materialize_results:
  assumes "(\<forall>url lp. \<not> unsavable w url lp) \<or> \<not> truthy save_path"
  shows "map fst (materialize w arrival urls save_path skip_existing) =
         map (\<lambda>url. fst (fetch_image_details w (files w) url save_path skip_existing)) urls"
proof (induction urls arbitrary: arrival)
  case Nil
  then show ?case by simp
next
  case (Cons url urls)
  have "fst (fetch_image_details w arrival url save_path skip_existing) =
        fst (fetch_image_details w (files w) url save_path skip_existing)"
    by (rule fetch_image_details_fst_arrival[OF assms])
  then show ?case by (simp add: Let_def Cons.IH)
qed

lemma get_release_groups_Returned:
  assumes "get_release_groups w order artist album = (Returned groups, tr)"
    and "page_result (fetch_release_groups w artist album 0 100) = (Returned initial, tr0)"
  shows "\<exists>results tr'.
           await_all (map page_result (as_completed order
             (map (\<lambda>offset. fetch_release_groups w artist album offset 100)
                (py_range 100 (get_or j_count 0 initial) 100)))) = (Returned results, tr') \<and>
           groups = get_or j_release_groups [] initial @
                    concat (map (get_or j_release_groups []) results) \<and>
           tr = tr0 @ tr'"
proof -
  let ?aw = "await_all (map page_result (as_completed order
             (map (\<lambda>offset. fetch_release_groups w artist album offset 100)
                (py_range 100 (get_or j_count 0 initial) 100))))"
  obtain r tr' where aw: "?aw = (r, tr')" by (cases ?aw)
  show ?thesis
    using assms(1) by (cases r) (simp_all add: get_release_groups_def assms(2) aw)
qed

lemma concat_map_mset:
  "mset xs = mset ys \<Longrightarrow> mset (concat (map f xs)) = mset (concat (map f ys))"
proof -
  have "\<And>zs. mset (concat (map f zs)) = (\<Sum>x\<in>#mset zs. mset (f x))"
    by (induct_tac zs) simp_all
  then show "mset xs = mset ys \<Longrightarrow> mset (concat (map f xs)) = mset (concat (map f ys))"
    by simp
qed

text \<open>
  Claim C6. The list that \<^verbatim>\<open>find_image_details\<close> returns is sorted by resolution,
  largest first; the winner taken from it on line 289 is its head when it is not empty and
  nothing when it is empty, so the winner is an image of the list and no image of the list
  has a larger resolution. And the album's winner is the winner of the album's own list:
  when the stages of \<^verbatim>\<open>process_artist_album\<close> return, the pipeline returns the winner of
  the list that \<^verbatim>\<open>find_image_details\<close> returned for the URLs its art locator collected
  and the save path of its configuration, after writing the album's metadata; and an image
  that the pipeline returns is the head of that list.
\<close>

theorem ranking_sorted_and_winner_is_head:
  "(\<forall>ds tr. find_image_details w order urls save_path skip_existing = (Returned ds, tr) \<longrightarrow>
      sorted_wrt (\<lambda>a b. d_resolution b \<le> d_resolution a) ds \<and>
      (ds = [] \<longrightarrow> winner ds = None) \<and>
      (ds \<noteq> [] \<longrightarrow> winner ds = Some (hd ds)) \<and>
      (\<forall>x. winner ds = Some x \<longrightarrow>
           x \<in> set ds \<and> (\<forall>d \<in> set ds. d_resolution d \<le> d_resolution x)))
   \<and> (\<forall>found tr1 release_ids cover_art_results tr2 ds tr3.
      get_release_groups w (completion w Pagination artist album) artist album =
        (Returned found, tr1) \<and>
      (if truthy release_type then filter (\<lambda>rg. j_primary_type rg = release_type) found
       else found) \<noteq> [] \<and>
      release_ids_of status
        (if truthy release_type then filter (\<lambda>rg. j_primary_type rg = release_type) found
         else found) = Returned release_ids \<and>
      get_cover_art_urls w (completion w ArtLocation artist album) release_ids =
        (Returned cover_art_results, tr2) \<and>
      concat (map snd cover_art_results) \<noteq> [] \<and>
      find_image_details w (completion w Materialization artist album)
        (concat (map snd cover_art_results))
        (if save_images then Some (path_join (path_join output_dir artist) album) else None)
        skip_existing = (Returned ds, tr3) \<longrightarrow>
      process_artist_album w artist album release_type status save_images output_dir
          skip_existing =
        (Returned (winner ds),
         tr1 @ tr2 @ MakeDirs (path_join (path_join output_dir artist) album) # tr3 @
         save_output_to_file
           (path_join (path_join (path_join output_dir artist) album) (album @ ''.json''))))
   \<and> (\<forall>r tr.
      process_artist_album w artist album release_type status save_images output_dir
          skip_existing = (Returned (Some r), tr) \<longrightarrow>
      (\<exists>found tr1 release_ids cover_art_results tr2 ds tr3.
         get_release_groups w (completion w Pagination artist album) artist album =
           (Returned found, tr1) \<and>
         release_ids_of status
           (if truthy release_type then filter (\<lambda>rg. j_primary_type rg = release_type) found
            else found) = Returned release_ids \<and>
         get_cover_art_urls w (completion w ArtLocation artist album) release_ids =
           (Returned cover_art_results, tr2) \<and>
         find_image_details w (completion w Materialization artist album)
           (concat (map snd cover_art_results))
           (if save_images then Some (path_join (path_join output_dir artist) album) else None)
           skip_existing = (Returned ds, tr3) \<and>
         ds \<noteq> [] \<and> r = hd ds \<and> (\<forall>d \<in> set ds. d_resolution d \<le> d_resolution r)))"
proof (intro conjI allI impI)
  fix ds tr
  assume a: "find_image_details w order urls save_path skip_existing = (Returned ds, tr)"
  then show s: "sorted_wrt (\<lambda>a b. d_resolution b \<le> d_resolution a) ds"
    using sorted_reverse_sorted[of d_resolution] find_image_details_Returned[OF a] by auto
  show "winner ds = None" if "ds = []" using that by (simp add: winner_def)
  show "winner ds = Some (hd ds)" if "ds \<noteq> []" using that by (cases ds) (simp_all add: winner_def)
  fix x assume x: "winner ds = Some x"
  then show "x \<in> set ds" by (cases ds) (auto simp: winner_def)
  from x show "\<forall>d \<in> set ds. d_resolution d \<le> d_resolution x"
    using s by (cases ds) (auto simp: winner_def)
next
  fix found tr1 release_ids cover_art_results tr2 ds tr3
  assume "get_release_groups w (completion w Pagination artist album) artist album =
        (Returned found, tr1) \<and>
      (if truthy release_type then filter (\<lambda>rg. j_primary_type rg = release_type) found
       else found) \<noteq> [] \<and>
      release_ids_of status
        (if truthy release_type then filter (\<lambda>rg. j_primary_type rg = release_type) found
         else found) = Returned release_ids \<and>
      get_cover_art_urls w (completion w ArtLocation artist album) release_ids =
        (Returned cover_art_results, tr2) \<and>
      concat (map snd cover_art_results) \<noteq> [] \<and>
      find_image_details w (completion w Materialization artist album)
        (concat (map snd cover_art_results))
        (if save_images then Some (path_join (path_join output_dir artist) album) else None)
        skip_existing = (Returned ds, tr3)"
  then show "process_artist_album w artist album release_type status save_images output_dir
          skip_existing =
        (Returned (winner ds),
         tr1 @ tr2 @ MakeDirs (path_join (path_join output_dir artist) album) # tr3 @
         save_output_to_file
           (path_join (path_join (path_join output_dir artist) album) (album @ ''.json'')))"
    by (simp add: process_artist_album_def Let_def)
next
  fix r tr
  let ?kept = "\<lambda>found. if truthy release_type
                 then filter (\<lambda>rg. j_primary_type rg = release_type) found else found"
  let ?sp = "if save_images then Some (path_join (path_join output_dir artist) album) else None"
  assume p: "process_artist_album w artist album release_type status save_images output_dir
          skip_existing = (Returned (Some r), tr)"
  obtain r1 tr1 where
    g: "get_release_groups w (completion w Pagination artist album) artist album = (r1, tr1)"
    by (cases "get_release_groups w (completion w Pagination artist album) artist album")
  from p g obtain found where r1: "r1 = Returned found"
    by (cases r1) (simp_all add: process_artist_album_def)
  have k: "?kept found \<noteq> []"
    using p by (auto simp: process_artist_album_def g r1 Let_def)
  obtain release_ids where i: "release_ids_of status (?kept found) = Returned release_ids"
    using k p by (cases "release_ids_of status (?kept found)")
                 (simp_all add: process_artist_album_def g r1 Let_def)
  obtain r2 tr2 where
    c: "get_cover_art_urls w (completion w ArtLocation artist album) release_ids = (r2, tr2)"
    by (cases "get_cover_art_urls w (completion w ArtLocation artist album) release_ids")
  from k p obtain cover_art_results where r2: "r2 = Returned cover_art_results"
    by (cases r2) (simp_all add: process_artist_album_def g r1 i c Let_def)
  have u: "concat (map snd cover_art_results) \<noteq> []"
    using k p by (auto simp: process_artist_album_def g r1 i c r2 split: if_splits)
  obtain r3 tr3 where
    f: "find_image_details w (completion w Materialization artist album)
          (concat (map snd cover_art_results)) ?sp skip_existing = (r3, tr3)"
    by (cases "find_image_details w (completion w Materialization artist album)
          (concat (map snd cover_art_results)) ?sp skip_existing")
  from u k p obtain ds where r3: "r3 = Returned ds"
    by (cases r3)
       (simp_all add: process_artist_album_def g r1 i c r2 f Let_def del: concat_eq_Nil_conv)
  have win: "winner ds = Some r"
    using u k p
    by (simp add: process_artist_album_def g r1 i c r2 f r3 Let_def del: concat_eq_Nil_conv)
  then have ne: "ds \<noteq> []" and hd: "r = hd ds"
    by (cases ds; simp add: winner_def)+
  from find_image_details_Returned[OF f[unfolded r3]]
  have "sorted_wrt (\<lambda>a b. d_resolution b \<le> d_resolution a) ds"
    using sorted_reverse_sorted[of d_resolution] by auto
  then have mx: "\<forall>d \<in> set ds. d_resolution d \<le> d_resolution r"
    using ne hd by (cases ds) auto
  show "\<exists>found tr1 release_ids cover_art_results tr2 ds tr3.
         get_release_groups w (completion w Pagination artist album) artist album =
           (Returned found, tr1) \<and>
         release_ids_of status
           (if truthy release_type then filter (\<lambda>rg. j_primary_type rg = release_type) found
            else found) = Returned release_ids \<and>
         get_cover_art_urls w (completion w ArtLocation artist album) release_ids =
           (Returned cover_art_results, tr2) \<and>
         find_image_details w (completion w Materialization artist album)
           (concat (map snd cover_art_results))
           (if save_images then Some (path_join (path_join output_dir artist) album) else None)
           skip_existing = (Returned ds, tr3) \<and>
         ds \<noteq> [] \<and> r = hd ds \<and> (\<forall>d \<in> set ds. d_resolution d \<le> d_resolution r)"
    using g[unfolded r1] i c[unfolded r2] f[unfolded r3] ne hd mx by blast
qed

lemma twins_a: "fetch_image_details twins arrival ''http://img/a.jpg'' None True =
   (Returned (Some \<lparr>d_url = ''http://img/a.jpg'', d_dimensions = (500, 500),
                    d_resolution = 250000, d_local_path = None\<rparr>), [HttpGet ''http://img/a.jpg'' []])"
  by (simp add: fetch_image_details_unset truthy_def download_None twins_def)

lemma twins_b: "fetch_image_details twins arrival ''http://img/b.jpg'' None True =
   (Returned (Some \<lparr>d_url = ''http://img/b.jpg'', d_dimensions = (500, 500),
                    d_resolution = 250000, d_local_path = None\<rparr>), [HttpGet ''http://img/b.jpg'' []])"
  by (simp add: fetch_image_details_unset truthy_def download_None twins_def)

lemma geo_a: "fetch_image_details geogaddi arrival ''http://img/a.jpg'' None True =
   (Returned (Some \<lparr>d_url = ''http://img/a.jpg'', d_dimensions = (500, 500),
                    d_resolution = 250000, d_local_path = None\<rparr>), [HttpGet ''http://img/a.jpg'' []])"
  by (simp add: fetch_image_details_unset truthy_def download_None geogaddi_def)

lemma geo_b: "fetch_image_details geogaddi arrival ''http://img/b.jpg'' None True =
   (Returned (Some \<lparr>d_url = ''http://img/b.jpg'', d_dimensions = (1000, 1000),
                    d_resolution = 1000000, d_local_path = None\<rparr>), [HttpGet ''http://img/b.jpg'' []])"
  by (simp add: fetch_image_details_unset truthy_def download_None geogaddi_def)

lemma geo_find:
  "find_image_details geogaddi [] [''http://img/a.jpg'', ''http://img/b.jpg''] None True =
     (Returned [\<lparr>d_url = ''http://img/b.jpg'', d_dimensions = (1000, 1000),
                  d_resolution = 1000000, d_local_path = None\<rparr>,
                \<lparr>d_url = ''http://img/a.jpg'', d_dimensions = (500, 500),
                  d_resolution = 250000, d_local_path = None\<rparr>],
      [HttpGet ''http://img/a.jpg'' [], HttpGet ''http://img/b.jpg'' []])"
  by (simp add: find_image_details_def geo_a geo_b valid_details_def sorted_reverse_def Let_def)

lemma fetch_image_details_fresh:
  assumes "local_path_of save_path url = Some lp" and "files w lp = None"
  shows "fetch_image_details w arrival url save_path True =
           (fst (download w arrival url (Some lp) True 1),
            PathExists lp # snd (download w arrival url (Some lp) True 1))"
proof -
  obtain r tr where d: "download w arrival url (Some lp) True 1 = (Returned r, tr)"
    using download_returns by blast
  have "fetch_image_details_attempt w arrival url save_path True 1 = (Returned r, PathExists lp # tr)"
    using assms d by (simp add: fetch_image_details_attempt_def)
  from retry_returned[where body="fetch_image_details_attempt w arrival url save_path True"
         and n=1, OF this] d
  show ?thesis by (simp add: fetch_image_details_def)
qed

text \<open>
  A save that fails makes the images themselves depend on the completion order. Two URLs
  with the same file name, the second image not savable: when the first download
  completes first it is saved and the second task, finding the file, skips its save and
  returns its image; when the second completes first its save fails and it returns
  nothing.
\<close>

lemma a_failing_save_follows_completion_order:
  "fst (find_image_details same_name [] [''http://img/1/c.jpg'', ''http://img/2/c.jpg'']
          (Some ''covers'') True) = Returned [c_large, c_small]
   \<and> fst (find_image_details same_name [1] [''http://img/1/c.jpg'', ''http://img/2/c.jpg'']
          (Some ''covers'') True) = Returned [c_large]"
proof -
  have p1: "local_path_of (Some ''covers'') ''http://img/1/c.jpg'' = Some ''covers/c.jpg''"
    by (simp add: local_path_of_def path_join_def basename_def)
  have p2: "local_path_of (Some ''covers'') ''http://img/2/c.jpg'' = Some ''covers/c.jpg''"
    by (simp add: local_path_of_def path_join_def basename_def)
  have f: "files same_name ''covers/c.jpg'' = None"
    by (simp add: same_name_def geogaddi_def)
  note f1 = fetch_image_details_fresh[OF p1 f]
  note f2 = fetch_image_details_fresh[OF p2 f]
  have o: "as_completed [1] [''http://img/1/c.jpg'', ''http://img/2/c.jpg''] =
             [''http://img/2/c.jpg'', ''http://img/1/c.jpg'']"
    by (simp add: Let_def)
  have s: "\<And>n. image_srv same_name ''http://img/1/c.jpg'' [] n = Responds 200 (Some (1000, 1000))"
          "\<And>n. image_srv same_name ''http://img/2/c.jpg'' [] n = Responds 200 (Some (500, 500))"
          "unsavable same_name ''http://img/1/c.jpg'' ''covers/c.jpg'' = False"
          "unsavable same_name ''http://img/2/c.jpg'' ''covers/c.jpg'' = True"
    by (simp_all add: same_name_def geogaddi_def)
  show ?thesis
    by (simp add: find_image_details_def o f1 f2 f p1 p2 s download_def disk_after_def Let_def
          valid_details_def sorted_reverse_def c_large_def c_small_def image_error_def)
qed

text \<open>
  Claim C9, as amended. The image stage: when no save fails (or images are not saved)
  each task's result is the same whatever completed before it, and when a run returns, a
  run with any other completion order and any other order of the input URLs returns too,
  with the same images and the same sequence of resolutions, hence the same list when the
  resolutions are pairwise distinct. In every run that returns, the images of one
  resolution stand in the list in the order in which their tasks completed: the sort is
  stable and nothing breaks the tie. Pagination and art location do not sort: when a run
  returns, a run with any other completion order returns the same release groups and the
  same URL lists up to their order.
\<close>

theorem completion_order_leaves_resolutions:
  "(((\<forall>url lp. \<not> unsavable w url lp) \<or> \<not> truthy save_path) \<longrightarrow>
      (\<forall>arrival xs.
         map fst (materialize w arrival xs save_path skip_existing) =
         map (\<lambda>url. fst (fetch_image_details w (files w) url save_path skip_existing)) xs) \<and>
      (\<forall>ds1 tr1.
         find_image_details w order1 urls1 save_path skip_existing = (Returned ds1, tr1) \<and>
         mset urls2 = mset urls1 \<longrightarrow>
         (\<exists>ds2 tr2.
            find_image_details w order2 urls2 save_path skip_existing = (Returned ds2, tr2) \<and>
            mset ds2 = mset ds1 \<and>
            map d_resolution ds2 = map d_resolution ds1 \<and>
            (distinct (map d_resolution ds1) \<longrightarrow> ds2 = ds1))))
   \<and> (\<forall>ds tr.
      find_image_details w order1 urls1 save_path skip_existing = (Returned ds, tr) \<longrightarrow>
      (\<exists>details.
         map fst (materialize w (files w) (as_completed order1 urls1) save_path skip_existing) =
           map Returned details \<and>
         (\<forall>k. filter (\<lambda>d. d_resolution d = k) ds =
              filter (\<lambda>d. d_resolution d = k) (valid_details details))))
   \<and> (\<forall>groups1 tr1.
      get_release_groups w order1 artist album = (Returned groups1, tr1) \<longrightarrow>
      (\<exists>groups2 tr2.
         get_release_groups w order2 artist album = (Returned groups2, tr2) \<and>
         mset groups2 = mset groups1))
   \<and> (\<forall>results1 tr1.
      get_cover_art_urls w order1 release_ids = (Returned results1, tr1) \<longrightarrow>
      (\<exists>results2 tr2.
         get_cover_art_urls w order2 release_ids = (Returned results2, tr2) \<and>
         mset results2 = mset results1))"
proof (intro conjI allI impI)
  fix arrival xs
  assume "(\<forall>url lp. \<not> unsavable w url lp) \<or> \<not> truthy save_path"
  then show "map fst (materialize w arrival xs save_path skip_existing) =
         map (\<lambda>url. fst (fetch_image_details w (files w) url save_path skip_existing)) xs"
    by (rule materialize_results)
next
  fix ds1 tr1
  assume h: "(\<forall>url lp. \<not> unsavable w url lp) \<or> \<not> truthy save_path"
  assume a: "find_image_details w order1 urls1 save_path skip_existing = (Returned ds1, tr1) \<and>
      mset urls2 = mset urls1"
  let ?f = "\<lambda>url. fst (fetch_image_details w (files w) url save_path skip_existing)"
  let ?ts1 = "materialize w (files w) (as_completed order1 urls1) save_path skip_existing"
  let ?ts2 = "materialize w (files w) (as_completed order2 urls2) save_path skip_existing"
  from find_image_details_Returned[of w order1 urls1 save_path skip_existing ds1 tr1] a
  obtain details1 where
    a1: "await_all ?ts1 = (Returned details1, tr1)" and
    d1: "ds1 = sorted_reverse d_resolution (valid_details details1)" by blast
  have "mset (map ?f (as_completed order2 urls2)) = mset (map ?f (as_completed order1 urls1))"
    using a by (simp only: mset_map as_completed_mset)
  then have "mset (map fst ?ts2) = mset (map fst ?ts1)"
    by (simp only: materialize_results[OF h])
  from await_all_permuted[OF a1 this] obtain details2 tr2 where
    a2: "await_all ?ts2 = (Returned details2, tr2)" and
    m: "mset details2 = mset details1" by blast
  let ?ds2 = "sorted_reverse d_resolution (valid_details details2)"
  have v: "mset (valid_details details1) = mset (valid_details details2)"
    using m by (intro valid_details_mset) simp
  have r2: "find_image_details w order2 urls2 save_path skip_existing = (Returned ?ds2, tr2)"
    using a2 by (simp add: find_image_details_def)
  have "mset ?ds2 = mset ds1" using v by (simp add: d1 sorted_reverse_mset)
  moreover have "map d_resolution ?ds2 = map d_resolution ds1"
    unfolding d1 using v by (intro sorted_reverse_keys) simp
  moreover have "?ds2 = ds1" if "distinct (map d_resolution ds1)"
    using that v unfolding d1 by (intro sorted_reverse_distinct_keys[symmetric]) simp_all
  ultimately show "\<exists>ds2 tr2.
         find_image_details w order2 urls2 save_path skip_existing = (Returned ds2, tr2) \<and>
         mset ds2 = mset ds1 \<and>
         map d_resolution ds2 = map d_resolution ds1 \<and>
         (distinct (map d_resolution ds1) \<longrightarrow> ds2 = ds1)"
    using r2 by blast
next
  fix ds tr
  assume a: "find_image_details w order1 urls1 save_path skip_existing = (Returned ds, tr)"
  from find_image_details_Returned[OF a] obtain details where
    aw: "await_all (materialize w (files w) (as_completed order1 urls1) save_path skip_existing) =
           (Returned details, tr)" and
    d: "ds = sorted_reverse d_resolution (valid_details details)" by blast
  from await_all_Returned[OF aw]
  have "map fst (materialize w (files w) (as_completed order1 urls1) save_path skip_existing) =
          map Returned details" by simp
  moreover have "\<forall>k. filter (\<lambda>d. d_resolution d = k) ds =
              filter (\<lambda>d. d_resolution d = k) (valid_details details)"
    unfolding d by (simp add: sorted_reverse_stable)
  ultimately show "\<exists>details.
         map fst (materialize w (files w) (as_completed order1 urls1) save_path skip_existing) =
           map Returned details \<and>
         (\<forall>k. filter (\<lambda>d. d_resolution d = k) ds =
              filter (\<lambda>d. d_resolution d = k) (valid_details details))"
    by blast
next
  fix groups1 tr1
  assume run: "get_release_groups w order1 artist album = (Returned groups1, tr1)"
  let ?tasks = "\<lambda>initial. map (\<lambda>offset. fetch_release_groups w artist album offset 100)
                (py_range 100 (get_or j_count 0 initial) 100)"
  obtain r0 tr0 where f0: "page_result (fetch_release_groups w artist album 0 100) = (r0, tr0)"
    by (cases "page_result (fetch_release_groups w artist album 0 100)")
  obtain initial where r0: "r0 = Returned initial"
    using run f0 by (cases r0) (simp_all add: get_release_groups_def)
  from get_release_groups_Returned[OF run f0[unfolded r0]] obtain results1 tr' where
    a1: "await_all (map page_result (as_completed order1 (?tasks initial))) =
           (Returned results1, tr')" and
    g1: "groups1 = get_or j_release_groups [] initial @
                   concat (map (get_or j_release_groups []) results1)" by blast
  have "mset (map fst (map page_result (as_completed order2 (?tasks initial)))) =
        mset (map fst (map page_result (as_completed order1 (?tasks initial))))"
    by (simp only: mset_map as_completed_mset)
  from await_all_permuted[OF a1 this] obtain results2 tr2 where
    a2: "await_all (map page_result (as_completed order2 (?tasks initial))) =
           (Returned results2, tr2)" and
    m: "mset results2 = mset results1" by blast
  have "get_release_groups w order2 artist album =
          (Returned (get_or j_release_groups [] initial @
                     concat (map (get_or j_release_groups []) results2)), tr0 @ tr2)"
    using a2 by (simp add: get_release_groups_def f0 r0)
  moreover have "mset (get_or j_release_groups [] initial @
                     concat (map (get_or j_release_groups []) results2)) = mset groups1"
    using concat_map_mset[OF m, of "get_or j_release_groups []"] by (simp add: g1)
  ultimately show "\<exists>groups2 tr2.
         get_release_groups w order2 artist album = (Returned groups2, tr2) \<and>
         mset groups2 = mset groups1"
    by blast
next
  fix results1 tr1
  assume "get_cover_art_urls w order1 release_ids = (Returned results1, tr1)"
  then have a1: "await_all (as_completed order1 (map (fetch_cover_art_urls w) release_ids)) =
                   (Returned results1, tr1)"
    by (simp add: get_cover_art_urls_def)
  have "mset (map fst (as_completed order2 (map (fetch_cover_art_urls w) release_ids))) =
        mset (map fst (as_completed order1 (map (fetch_cover_art_urls w) release_ids)))"
    by (simp only: mset_map as_completed_mset)
  from await_all_permuted[OF a1 this]
  show "\<exists>results2 tr2.
         get_cover_art_urls w order2 release_ids = (Returned results2, tr2) \<and>
         mset results2 = mset results1"
    by (simp add: get_cover_art_urls_def)
qed

text \<open>
  The claim as stated fails for images of equal resolution: two URLs whose images both
  measure 500 x 500 are returned in the order in which their downloads complete.
\<close>

theorem equal_resolutions_follow_completion_order:
  "fst (find_image_details twins [] [''http://img/a.jpg'', ''http://img/b.jpg''] None True) =
     Returned [\<lparr>d_url = ''http://img/a.jpg'', d_dimensions = (500, 500),
                 d_resolution = 250000, d_local_path = None\<rparr>,
               \<lparr>d_url = ''http://img/b.jpg'', d_dimensions = (500, 500),
                 d_resolution = 250000, d_local_path = None\<rparr>]
   \<and> fst (find_image_details twins [1] [''http://img/a.jpg'', ''http://img/b.jpg''] None True) =
     Returned [\<lparr>d_url = ''http://img/b.jpg'', d_dimensions = (500, 500),
                 d_resolution = 250000, d_local_path = None\<rparr>,
               \<lparr>d_url = ''http://img/a.jpg'', d_dimensions = (500, 500),
                 d_resolution = 250000, d_local_path = None\<rparr>]
   \<and> fst (find_image_details twins [] [''http://img/a.jpg'', ''http://img/b.jpg''] None True) \<noteq>
     fst (find_image_details twins [1] [''http://img/a.jpg'', ''http://img/b.jpg''] None True)"
  by (simp add: find_image_details_def twins_a twins_b valid_details_def sorted_reverse_def Let_def)

text \<open>
  The two images of the scenario, of different resolutions, downloaded without being
  saved: the run in which \<^verbatim>\<open>a.jpg\<close> completes first and the run in which \<^verbatim>\<open>b.jpg\<close>
  completes first make their requests in different orders and return the same list. The
  two images of equal resolution, \<^verbatim>\<open>b.jpg\<close> completing first: the list has them in
  that order.
\<close>

theorem completion_order_leaves_resolutions_witness:
  "find_image_details geogaddi [] [''http://img/a.jpg'', ''http://img/b.jpg''] None True =
     (Returned [\<lparr>d_url = ''http://img/b.jpg'', d_dimensions = (1000, 1000),
                  d_resolution = 1000000, d_local_path = None\<rparr>,
                \<lparr>d_url = ''http://img/a.jpg'', d_dimensions = (500, 500),
                  d_resolution = 250000, d_local_path = None\<rparr>],
      [HttpGet ''http://img/a.jpg'' [], HttpGet ''http://img/b.jpg'' []])
   \<and> find_image_details geogaddi [1] [''http://img/a.jpg'', ''http://img/b.jpg''] None True =
     (Returned [\<lparr>d_url = ''http://img/b.jpg'', d_dimensions = (1000, 1000),
                  d_resolution = 1000000, d_local_path = None\<rparr>,
                \<lparr>d_url = ''http://img/a.jpg'', d_dimensions = (500, 500),
                  d_resolution = 250000, d_local_path = None\<rparr>],
      [HttpGet ''http://img/b.jpg'' [], HttpGet ''http://img/a.jpg'' []])
   \<and> filter (\<lambda>d. d_resolution d = 250000)
        (case fst (find_image_details twins [1] [''http://img/a.jpg'', ''http://img/b.jpg'']
                     None True) of Returned ds \<Rightarrow> ds | Raised e \<Rightarrow> []) =
     [\<lparr>d_url = ''http://img/b.jpg'', d_dimensions = (500, 500),
       d_resolution = 250000, d_local_path = None\<rparr>,
      \<lparr>d_url = ''http://img/a.jpg'', d_dimensions = (500, 500),
       d_resolution = 250000, d_local_path = None\<rparr>]"
proof -
  let ?urls = "[''http://img/a.jpg'', ''http://img/b.jpg'']"
  let ?A = "\<lparr>d_url = ''http://img/a.jpg'', d_dimensions = (500, 500),
                  d_resolution = 250000, d_local_path = None\<rparr>"
  let ?B = "\<lparr>d_url = ''http://img/b.jpg'', d_dimensions = (1000, 1000),
                  d_resolution = 1000000, d_local_path = None\<rparr>"
  let ?B' = "\<lparr>d_url = ''http://img/b.jpg'', d_dimensions = (500, 500),
                  d_resolution = 250000, d_local_path = None\<rparr>"
  have o: "as_completed [1] ?urls = [''http://img/b.jpg'', ''http://img/a.jpg'']"
    by (simp add: Let_def)
  have h: "(\<forall>url lp. \<not> unsavable geogaddi url lp) \<or> \<not> truthy None"
    by (simp add: truthy_def)
  have t: "snd (find_image_details geogaddi [1] ?urls None True) =
             [HttpGet ''http://img/b.jpg'' [], HttpGet ''http://img/a.jpg'' []]"
    by (simp add: find_image_details_def o geo_a geo_b Let_def split: prod.splits outcome.splits)
  from completion_order_leaves_resolutions[of geogaddi None True "[]" ?urls ?urls "[1]",
         THEN conjunct1, rule_format, OF h, THEN conjunct2, rule_format, OF conjI,
         OF geo_find refl]
  obtain ds2 tr2 where
    r: "find_image_details geogaddi [1] ?urls None True = (Returned ds2, tr2)" and
    e: "distinct (map d_resolution [?B, ?A]) \<longrightarrow> ds2 = [?B, ?A]"
    by blast
  from e have "ds2 = [?B, ?A]" by simp
  with r t have g1: "find_image_details geogaddi [1] ?urls None True =
     (Returned [?B, ?A], [HttpGet ''http://img/b.jpg'' [], HttpGet ''http://img/a.jpg'' []])"
    by simp
  have tw: "find_image_details twins [1] ?urls None True =
     (Returned [?B', ?A], [HttpGet ''http://img/b.jpg'' [], HttpGet ''http://img/a.jpg'' []])"
    by (simp add: find_image_details_def o twins_a twins_b valid_details_def sorted_reverse_def
          Let_def)
  from completion_order_leaves_resolutions[of twins None True "[1]" ?urls,
         THEN conjunct2, THEN conjunct1, rule_format, OF tw]
  obtain details where
    m: "map fst (materialize twins (files twins) (as_completed [1] ?urls) None True) =
          map Returned details" and
    s: "\<forall>k. filter (\<lambda>d. d_resolution d = k) [?B', ?A] =
             filter (\<lambda>d. d_resolution d = k) (valid_details details)"
    by blast
  from m have "details = [Some ?B', Some ?A]"
    by (auto simp: o twins_a twins_b Let_def Cons_eq_map_conv)
  with s have "filter (\<lambda>d. d_resolution d = 250000) [?B', ?A] = [?B', ?A]"
    by (simp add: valid_details_def)
  with geo_find g1 tw show ?thesis by simp
qed

subsection \<open>The album pipeline and the batch\<close>


lemma get_release_groups_no_further_page:
  assumes "page_result (fetch_release_groups w artist album 0 100) = (Returned initial, tr0)"
    and "get_or j_count 0 initial \<le> 100"
  shows "get_release_groups w order artist album =
           (Returned (get_or j_release_groups [] initial), tr0)"
  using assms by (simp add: get_release_groups_def py_range_empty)


lemma fetch_image_details_ok:
  "image_srv w url [] 1 = Responds st (Some (wd, ht)) \<Longrightarrow>
   fetch_image_details w arrival url None skip_existing =
     (Returned (Some \<lparr>d_url = url, d_dimensions = (wd, ht), d_resolution = wd * ht,
                      d_local_path = None\<rparr>), [HttpGet url []])"
  by (simp add: fetch_image_details_unset truthy_def download_None)

lemma sparse_geogaddi_groups:
  "get_release_groups sparse_catalog [] ''Boards of Canada'' ''Geogaddi'' =
     (Returned [\<lparr>j_primary_type = Some ''Album'',
                  j_releases = Some [\<lparr>j_id = Some ''r1'', j_status = Some ''Official''\<rparr>,
                                     \<lparr>j_id = Some ''r2'', j_status = Some ''Official''\<rparr>]\<rparr>],
      [HttpGet ''https://musicbrainz.org/ws/2/release-group/''
         (release_group_params ''Boards of Canada'' ''Geogaddi'' 0 100)])"
proof -
  have "page_result (fetch_release_groups sparse_catalog ''Boards of Canada'' ''Geogaddi'' 0 100) =
     (Returned (Some two_releases),
      [HttpGet ''https://musicbrainz.org/ws/2/release-group/''
         (release_group_params ''Boards of Canada'' ''Geogaddi'' 0 100)])"
    by (rule page_result_first_ok)
       (simp add: sparse_catalog_def geogaddi_def release_group_params_def)
  from get_release_groups_no_further_page[OF this] show ?thesis
    by (simp add: get_or_def two_releases_def)
qed

lemma sparse_nonesuch_page:
  "fetch_release_groups sparse_catalog ''Boards of Canada'' ''Nonesuch'' 0 100 =
     (Returned (Some (Object no_matches)),
      [HttpGet ''https://musicbrainz.org/ws/2/release-group/''
         (release_group_params ''Boards of Canada'' ''Nonesuch'' 0 100)])"
  by (rule fetch_release_groups_first_ok)
     (simp add: sparse_catalog_def geogaddi_def release_group_params_def)

lemma sparse_covers:
  "get_cover_art_urls sparse_catalog [] [''r1'', ''r2''] =
     (Returned [(''r1'', [''http://img/a.jpg'']), (''r2'', [''http://img/b.jpg''])],
      [HttpGet ''https://coverartarchive.org/release/r1'' [],
       HttpGet ''https://coverartarchive.org/release/r2'' []])"
proof -
  have 1: "fetch_cover_art_urls sparse_catalog ''r1'' =
      (Returned (''r1'', [''http://img/a.jpg'']),
       [HttpGet ''https://coverartarchive.org/release/r1'' []])"
    by (subst fetch_cover_art_urls_first_ok[where doc="front_cover ''http://img/a.jpg''"])
       (simp_all add: sparse_catalog_def geogaddi_def front_urls_front_cover)
  have 2: "fetch_cover_art_urls sparse_catalog ''r2'' =
      (Returned (''r2'', [''http://img/b.jpg'']),
       [HttpGet ''https://coverartarchive.org/release/r2'' []])"
    by (subst fetch_cover_art_urls_first_ok[where doc="front_cover ''http://img/b.jpg''"])
       (simp_all add: sparse_catalog_def geogaddi_def front_urls_front_cover)
  show ?thesis by (simp add: get_cover_art_urls_def 1 2)
qed

lemma sparse_images:
  "find_image_details sparse_catalog [] [''http://img/a.jpg'', ''http://img/b.jpg''] None sk =
     (Returned [b_jpg, a_jpg], [HttpGet ''http://img/a.jpg'' [], HttpGet ''http://img/b.jpg'' []])"
proof -
  have a: "\<And>arrival. fetch_image_details sparse_catalog arrival ''http://img/a.jpg'' None sk =
      (Returned (Some a_jpg), [HttpGet ''http://img/a.jpg'' []])"
    by (subst fetch_image_details_ok[where st=200 and wd=500 and ht=500])
       (simp_all add: sparse_catalog_def geogaddi_def a_jpg_def)
  have b: "\<And>arrival. fetch_image_details sparse_catalog arrival ''http://img/b.jpg'' None sk =
      (Returned (Some b_jpg), [HttpGet ''http://img/b.jpg'' []])"
    by (subst fetch_image_details_ok[where st=200 and wd=1000 and ht=1000])
       (simp_all add: sparse_catalog_def geogaddi_def b_jpg_def)
  show ?thesis
    by (simp add: find_image_details_def a b valid_details_def sorted_reverse_def
          a_jpg_def b_jpg_def Let_def)
qed

lemma sparse_completion: "completion sparse_catalog = (\<lambda>s a b. [])"
  by (simp add: sparse_catalog_def geogaddi_def)

lemma sparse_geogaddi:
  "process_artist_album sparse_catalog ''Boards of Canada'' ''Geogaddi''
          None None False ''.'' True =
     (Returned (Some b_jpg),
      [HttpGet ''https://musicbrainz.org/ws/2/release-group/''
         (release_group_params ''Boards of Canada'' ''Geogaddi'' 0 100),
       HttpGet ''https://coverartarchive.org/release/r1'' [],
       HttpGet ''https://coverartarchive.org/release/r2'' [],
       MakeDirs ''./Boards of Canada/Geogaddi'',
       HttpGet ''http://img/a.jpg'' [],
       HttpGet ''http://img/b.jpg'' [],
       MakeDirs ''./Boards of Canada/Geogaddi'',
       WriteJson ''./Boards of Canada/Geogaddi/Geogaddi.json'',
       LogInfo ''Output saved to ./Boards of Canada/Geogaddi/Geogaddi.json''])"
  by (simp add: process_artist_album_def sparse_completion sparse_geogaddi_groups
        truthy_def release_ids_of_def matching_def sparse_covers sparse_images winner_def
        Let_def path_join_def save_output_to_file_def dirname_def)

lemma sparse_nonesuch:
  "process_artist_album sparse_catalog ''Boards of Canada'' ''Nonesuch''
          None None False ''.'' True =
     (Returned None,
      [HttpGet ''https://musicbrainz.org/ws/2/release-group/''
         (release_group_params ''Boards of Canada'' ''Nonesuch'' 0 100),
       LogError ''No release group found for Boards of Canada - Nonesuch matching the criteria.''])"
proof -
  have "page_result (fetch_release_groups sparse_catalog ''Boards of Canada'' ''Nonesuch'' 0 100) =
     (Returned (Some no_matches),
      [HttpGet ''https://musicbrainz.org/ws/2/release-group/''
         (release_group_params ''Boards of Canada'' ''Nonesuch'' 0 100)])"
    by (simp add: sparse_nonesuch_page page_result_def as_dict_def)
  from get_release_groups_no_further_page[OF this]
  have "get_release_groups sparse_catalog [] ''Boards of Canada'' ''Nonesuch'' =
     (Returned [],
      [HttpGet ''https://musicbrainz.org/ws/2/release-group/''
         (release_group_params ''Boards of Canada'' ''Nonesuch'' 0 100)])"
    by (simp add: get_or_def no_matches_def)
  then show ?thesis
    by (simp add: process_artist_album_def sparse_completion truthy_def)
qed

text \<open>
  Claim C1 (the code departs from it). \<^verbatim>\<open>main\<close> launches one pipeline per album, but
  lines 327--337 zip their results with the list of artists, not with the list of
  (artist, album) requests: every album of the \<open>i\<close>-th artist is paired with the \<open>i\<close>-th
  result. For one artist with the albums Geogaddi (an image is found) and Nonesuch
  (nothing is found), the summary gives Nonesuch an entry carrying Geogaddi's image; with
  the albums in the other order the summary is empty although Geogaddi's pipeline found
  its image.
\<close>

theorem summary_pairs_albums_with_the_artists_first_result:
  "fst (process_artist_album sparse_catalog ''Boards of Canada'' ''Geogaddi''
          None None False ''.'' True) = Returned (Some b_jpg)
   \<and> fst (process_artist_album sparse_catalog ''Boards of Canada'' ''Nonesuch''
          None None False ''.'' True) = Returned None
   \<and> fst (main sparse_catalog
            (requests [\<lparr>c_artist = ''Boards of Canada'',
                        c_albums = [''Geogaddi'', ''Nonesuch'']\<rparr>]) False) =
       Returned [\<lparr>s_artist = ''Boards of Canada'', s_album = ''Geogaddi'',
                   s_highest_resolution_image = b_jpg\<rparr>,
                 \<lparr>s_artist = ''Boards of Canada'', s_album = ''Nonesuch'',
                   s_highest_resolution_image = b_jpg\<rparr>]
   \<and> fst (main sparse_catalog
            (requests [\<lparr>c_artist = ''Boards of Canada'',
                        c_albums = [''Nonesuch'', ''Geogaddi'']\<rparr>]) False) =
       Returned []"
  by (simp add: sparse_geogaddi sparse_nonesuch main_def pipelines_def requests_def
        highest_res_images_of_def)


text \<open>
  The scenario's album, end to end: its ranked list is 1000 x 1000 before 500 x 500, and
  the pipeline returns the former, the head of that list, after writing the metadata.
\<close>

theorem ranking_sorted_and_winner_is_head_witness:
  "find_image_details sparse_catalog [] [''http://img/a.jpg'', ''http://img/b.jpg''] None True =
     (Returned [b_jpg, a_jpg], [HttpGet ''http://img/a.jpg'' [], HttpGet ''http://img/b.jpg'' []])
   \<and> sorted_wrt (\<lambda>a b. d_resolution b \<le> d_resolution a) [b_jpg, a_jpg]
   \<and> winner [b_jpg, a_jpg] = Some b_jpg
   \<and> process_artist_album sparse_catalog ''Boards of Canada'' ''Geogaddi''
          None None False ''.'' True =
     (Returned (Some b_jpg),
      [HttpGet ''https://musicbrainz.org/ws/2/release-group/''
         (release_group_params ''Boards of Canada'' ''Geogaddi'' 0 100),
       HttpGet ''https://coverartarchive.org/release/r1'' [],
       HttpGet ''https://coverartarchive.org/release/r2'' [],
       MakeDirs ''./Boards of Canada/Geogaddi'',
       HttpGet ''http://img/a.jpg'' [],
       HttpGet ''http://img/b.jpg'' [],
       MakeDirs ''./Boards of Canada/Geogaddi'',
       WriteJson ''./Boards of Canada/Geogaddi/Geogaddi.json'',
       LogInfo ''Output saved to ./Boards of Canada/Geogaddi/Geogaddi.json''])"
proof -
  let ?urls = "[''http://img/a.jpg'', ''http://img/b.jpg'']"
  let ?found = "[\<lparr>j_primary_type = Some ''Album'',
                  j_releases = Some [\<lparr>j_id = Some ''r1'', j_status = Some ''Official''\<rparr>,
                                     \<lparr>j_id = Some ''r2'', j_status = Some ''Official''\<rparr>]\<rparr>]"
  let ?results = "[(''r1'', [''http://img/a.jpg'']), (''r2'', [''http://img/b.jpg''])]"
  note rk = ranking_sorted_and_winner_is_head[of sparse_catalog "[]" ?urls None True
               "''Boards of Canada''" "''Geogaddi''" None None False "''.''"]
  from rk[THEN conjunct1, rule_format, OF sparse_images]
  have s: "sorted_wrt (\<lambda>a b. d_resolution b \<le> d_resolution a) [b_jpg, a_jpg]"
    and w: "winner [b_jpg, a_jpg] = Some b_jpg"
    by simp_all
  have stages:
    "get_release_groups sparse_catalog (completion sparse_catalog Pagination ''Boards of Canada''
        ''Geogaddi'') ''Boards of Canada'' ''Geogaddi'' =
       (Returned ?found,
        [HttpGet ''https://musicbrainz.org/ws/2/release-group/''
           (release_group_params ''Boards of Canada'' ''Geogaddi'' 0 100)]) \<and>
     (if truthy None then filter (\<lambda>rg. j_primary_type rg = None) ?found else ?found) \<noteq> [] \<and>
     release_ids_of None
       (if truthy None then filter (\<lambda>rg. j_primary_type rg = None) ?found else ?found) =
       Returned [''r1'', ''r2''] \<and>
     get_cover_art_urls sparse_catalog (completion sparse_catalog ArtLocation ''Boards of Canada''
        ''Geogaddi'') [''r1'', ''r2''] =
       (Returned ?results,
        [HttpGet ''https://coverartarchive.org/release/r1'' [],
         HttpGet ''https://coverartarchive.org/release/r2'' []]) \<and>
     concat (map snd ?results) \<noteq> [] \<and>
     find_image_details sparse_catalog
       (completion sparse_catalog Materialization ''Boards of Canada'' ''Geogaddi'')
       (concat (map snd ?results))
       (if False then Some (path_join (path_join ''.'' ''Boards of Canada'') ''Geogaddi'')
        else None) True =
       (Returned [b_jpg, a_jpg],
        [HttpGet ''http://img/a.jpg'' [], HttpGet ''http://img/b.jpg'' []])"
    by (simp add: sparse_completion sparse_geogaddi_groups sparse_covers sparse_images
          truthy_def release_ids_of_def matching_def)
  from rk[THEN conjunct2, THEN conjunct1, rule_format, OF stages] w
  have "process_artist_album sparse_catalog ''Boards of Canada'' ''Geogaddi''
          None None False ''.'' True =
     (Returned (Some b_jpg),
      [HttpGet ''https://musicbrainz.org/ws/2/release-group/''
         (release_group_params ''Boards of Canada'' ''Geogaddi'' 0 100),
       HttpGet ''https://coverartarchive.org/release/r1'' [],
       HttpGet ''https://coverartarchive.org/release/r2'' [],
       MakeDirs ''./Boards of Canada/Geogaddi'',
       HttpGet ''http://img/a.jpg'' [],
       HttpGet ''http://img/b.jpg'' [],
       MakeDirs ''./Boards of Canada/Geogaddi'',
       WriteJson ''./Boards of Canada/Geogaddi/Geogaddi.json'',
       LogInfo ''Output saved to ./Boards of Canada/Geogaddi/Geogaddi.json''])"
    by (simp add: path_join_def save_output_to_file_def dirname_def)
  with s w sparse_images show ?thesis by simp
qed

subsection \<open>Pagination\<close>

lemma py_range_length: "length (py_range start stop 100) = nat ((stop - start + 99) div 100)"
proof (induction start stop "100::int" rule: py_range.induct)
  case (1 start stop)
  show ?case
  proof (cases "stop \<le> start")
    case True
    then show ?thesis by (simp add: py_range_empty)
  next
    case False
    then have "length (py_range (start + 100) stop 100) = nat ((stop - (start + 100) + 99) div 100)"
      using 1 by simp
    moreover have "py_range start stop 100 = start # py_range (start + 100) stop 100"
      using False by (simp add: py_range_step)
    ultimately show ?thesis using False by simp
  qed
qed

lemma py_range_lower: "x \<in> set (py_range start stop 100) \<Longrightarrow> start \<le> x"
proof (induction start stop "100::int" rule: py_range.induct)
  case (1 start stop)
  show ?case
  proof (cases "stop \<le> start")
    case True
    with 1(2) show ?thesis by (simp add: py_range_empty)
  next
    case False
    then have "py_range start stop 100 = start # py_range (start + 100) stop 100"
      by (simp add: py_range_step)
    with 1 False show ?thesis by fastforce
  qed
qed

lemma py_range_distinct: "distinct (py_range start stop 100)"
proof (induction start stop "100::int" rule: py_range.induct)
  case (1 start stop)
  show ?case
  proof (cases "stop \<le> start")
    case True
    then show ?thesis by (simp add: py_range_empty)
  next
    case False
    then have "py_range start stop 100 = start # py_range (start + 100) stop 100"
      by (simp add: py_range_step)
    moreover have "start \<notin> set (py_range (start + 100) stop 100)"
      using py_range_lower[of start "start + 100" stop] by auto
    ultimately show ?thesis using 1 False by simp
  qed
qed

lemma pages_count: "1 + nat ((N - 100 + 99) div 100) = nat (max 1 \<lceil>real_of_int N / 100\<rceil>)"
proof -
  have "\<lceil>real_of_int N / 100\<rceil> = - (- N div 100)"
    using ceiling_divide_eq_div[of N 100] by simp
  then show ?thesis by simp
qed

lemma as_completed_map: "as_completed picks (map f xs) = map f (as_completed picks xs)"
proof (induction picks xs rule: as_completed.induct)
  case (3 p picks t ts)
  let ?xs = "t # ts"
  let ?i = "p mod length ?xs"
  have i: "?i < length ?xs" by simp
  have "as_completed (p # picks) (map f ?xs) =
          map f ?xs ! ?i # as_completed picks (take ?i (map f ?xs) @ drop (Suc ?i) (map f ?xs))"
    by (simp add: Let_def)
  also have "map f ?xs ! ?i = f (?xs ! ?i)"
    using i by (rule nth_map)
  also have "take ?i (map f ?xs) @ drop (Suc ?i) (map f ?xs) =
             map f (take ?i ?xs @ drop (Suc ?i) ?xs)"
    by (simp only: take_map drop_map map_append)
  also have "as_completed picks (map f (take ?i ?xs @ drop (Suc ?i) ?xs)) =
             map f (as_completed picks (take ?i ?xs @ drop (Suc ?i) ?xs))"
    by (rule 3[OF refl])
  finally show ?case by (simp add: Let_def)
qed simp_all

text \<open>
  The trace of one call of \<^verbatim>\<open>fetch_data\<close> holds one request, however often it was
  retried, and the request of the call after it is counted.
\<close>

lemma first_attempts_Sleep: "first_attempts b (Sleep s # tr) = first_attempts True tr"
  by (simp add: is_get_def)

lemma retry_one_request:
  assumes one: "\<And>j. first_attempts False (snd (body j)) = [g] \<and>
                     first_attempts True (snd (body j)) = [] \<and>
                     (\<forall>b ys. first_attempts b (snd (body j) @ ys) =
                             first_attempts b (snd (body j)) @ first_attempts False ys)"
  shows "first_attempts False (snd (retry s w r body n)) = [g] \<and>
         first_attempts True (snd (retry s w r body n)) = [] \<and>
         (\<forall>b ys. first_attempts b (snd (retry s w r body n) @ ys) =
                 first_attempts b (snd (retry s w r body n)) @ first_attempts False ys)"
proof (induction "s - n" arbitrary: n rule: less_induct)
  case less
  obtain res tr where b: "body n = (res, tr)" by (cases "body n")
  from one[of n] b have
    t1: "first_attempts False tr = [g]" and
    t2: "first_attempts True tr = []" and
    t3: "\<And>b ys. first_attempts b (tr @ ys) = first_attempts b tr @ first_attempts False ys"
    by simp_all
  show ?case
  proof (cases "\<exists>e. res = Raised e \<and> n < s")
    case False
    then have "retry s w r body n = (if r \<or> (\<exists>v. res = Returned v) then res
                 else Raised RetryError, tr) \<or> snd (retry s w r body n) = tr"
      using b by (cases res) (auto simp: retry.simps[of s w r body n])
    then have "snd (retry s w r body n) = tr" by auto
    then show ?thesis using t1 t2 t3 by simp
  next
    case True
    then obtain e where e: "res = Raised e" and lt: "n < s" by blast
    then have "s - Suc n < s - n" by simp
    from less[OF this] have
      r1: "first_attempts True (snd (retry s w r body (Suc n))) = []" and
      r3: "\<And>b ys. first_attempts b (snd (retry s w r body (Suc n)) @ ys) =
             first_attempts b (snd (retry s w r body (Suc n))) @ first_attempts False ys"
      by simp_all
    have u: "snd (retry s w r body n) = tr @ Sleep (w n) # snd (retry s w r body (Suc n))"
      using b e lt by (simp add: retry.simps[of s w r body n] case_prod_beta)
    show ?thesis
      unfolding u
      by (simp add: t1 t2 t3 r1 r3 first_attempts_Sleep is_get_Sleep)
  qed
qed

lemma fetch_data_one_request:
  "first_attempts False (snd (fetch_data session url params)) = [HttpGet url params] \<and>
   first_attempts True (snd (fetch_data session url params)) = [] \<and>
   (\<forall>b ys. first_attempts b (snd (fetch_data session url params) @ ys) =
           first_attempts b (snd (fetch_data session url params)) @ first_attempts False ys)"
  unfolding fetch_data_def
proof (rule retry_one_request)
  fix j
  show "first_attempts False (snd (fetch_data_attempt session url params j)) =
          [HttpGet url params] \<and>
        first_attempts True (snd (fetch_data_attempt session url params j)) = [] \<and>
        (\<forall>b ys. first_attempts b (snd (fetch_data_attempt session url params j) @ ys) =
           first_attempts b (snd (fetch_data_attempt session url params j)) @
           first_attempts False ys)"
    by (cases "session url params j")
       (auto simp: fetch_data_attempt_def is_get_def split: option.splits)
qed

lemma fetch_release_groups_one_request:
  "first_attempts False (snd (fetch_release_groups w artist album offset limit)) =
     [HttpGet ''https://musicbrainz.org/ws/2/release-group/''
        (release_group_params artist album offset limit)] \<and>
   (\<forall>ys. first_attempts False (snd (fetch_release_groups w artist album offset limit) @ ys) =
         first_attempts False (snd (fetch_release_groups w artist album offset limit)) @
         first_attempts False ys)"
proof -
  let ?d = "fetch_data (catalog_srv w) ''https://musicbrainz.org/ws/2/release-group/''
              (release_group_params artist album offset limit)"
  obtain r tr where d: "?d = (r, tr)" by (cases ?d)
  have "\<exists>l. snd (fetch_release_groups w artist album offset limit) = tr \<or>
     snd (fetch_release_groups w artist album offset limit) = tr @ [LogError l]"
    by (cases r) (auto simp: fetch_release_groups_def d)
  then obtain l where
    "snd (fetch_release_groups w artist album offset limit) = tr \<or>
     snd (fetch_release_groups w artist album offset limit) = tr @ [LogError l]"
    by blast
  moreover have "first_attempts False [LogError l] = []"
    and "\<And>ys. first_attempts False (LogError l # ys) = first_attempts False ys"
    by (simp_all add: is_get_def)
  ultimately show ?thesis
    using fetch_data_one_request[of "catalog_srv w"
            "''https://musicbrainz.org/ws/2/release-group/''"
            "release_group_params artist album offset limit"] d
    by auto
qed

lemma page_requests_of_pages:
  "page_requests (concat (map (\<lambda>offset. snd (fetch_release_groups w artist album offset limit))
                    offsets)) =
   map (\<lambda>offset. HttpGet ''https://musicbrainz.org/ws/2/release-group/''
                    (release_group_params artist album offset limit)) offsets"
  unfolding page_requests_def
proof (induction offsets)
  case Nil
  then show ?case by simp
next
  case (Cons offset offsets)
  from fetch_release_groups_one_request[of w artist album offset limit] Cons
  show ?case by simp
qed

lemma page_result_snd: "snd (page_result t) = snd t"
  by (cases t; cases "fst t") (simp_all add: page_result_def)

lemma get_release_groups_trace:
  assumes "fetch_release_groups w artist album 0 100 = (Returned (Some (Object page)), tr0)"
    and "j_count page = Some N"
  shows "snd (get_release_groups w order artist album) =
           concat (map (\<lambda>offset. snd (fetch_release_groups w artist album offset 100))
                     (0 # as_completed order (py_range 100 N 100)))"
proof -
  let ?fetch = "\<lambda>offset. fetch_release_groups w artist album offset 100"
  let ?ts = "map page_result (as_completed order (map ?fetch (py_range 100 N 100)))"
  have p: "page_result (?fetch 0) = (Returned (Some page), tr0)"
    using assms(1) by (simp add: page_result_def as_dict_def)
  have N: "get_or j_count 0 (Some page) = N"
    using assms(2) by (simp add: get_or_def)
  obtain r tr' where aw: "await_all ?ts = (r, tr')" by (cases "await_all ?ts")
  have "snd (get_release_groups w order artist album) = tr0 @ snd (await_all ?ts)"
    by (cases r) (simp_all add: get_release_groups_def p N aw Let_def)
  also have "snd (await_all ?ts) =
               concat (map (\<lambda>offset. snd (?fetch offset)) (as_completed order (py_range 100 N 100)))"
    by (simp add: await_all_trace as_completed_map comp_def page_result_snd)
  finally show ?thesis by (simp add: assms(1))
qed

text \<open>
  Claim C5, as amended. When the first page reports \<^verbatim>\<open>count = N\<close>, the trace of
  \<^verbatim>\<open>get_release_groups\<close> is the trace of one page fetch for offset 0 followed by that of
  one page fetch for each offset 100, 200, ... below \<open>N\<close>, in the order in which they
  complete, whether or not one of them raises. So the page requests are these, one per
  offset and none twice: \<open>max 1 \<lceil>N / 100\<rceil>\<close> of them, which is \<open>\<lceil>N / 100\<rceil>\<close> when \<open>N\<close> is at
  least 1. And when \<^verbatim>\<open>get_release_groups\<close> returns, the merged list has as many release
  groups as the pages contributed together.
\<close>

theorem page_requests_and_merged_count:
  assumes first: "fetch_release_groups w artist album 0 100 =
                    (Returned (Some (Object page)), tr0)"
      and count: "j_count page = Some N"
  shows "snd (get_release_groups w order artist album) =
           concat (map (\<lambda>offset. snd (fetch_release_groups w artist album offset 100))
                     (0 # as_completed order (py_range 100 N 100)))
       \<and> page_requests (snd (get_release_groups w order artist album)) =
           map (\<lambda>offset. HttpGet ''https://musicbrainz.org/ws/2/release-group/''
                            (release_group_params artist album offset 100))
             (0 # as_completed order (py_range 100 N 100))
       \<and> mset (page_requests (snd (get_release_groups w order artist album))) =
           image_mset (\<lambda>offset. HttpGet ''https://musicbrainz.org/ws/2/release-group/''
                                   (release_group_params artist album offset 100))
             (mset (0 # py_range 100 N 100))
       \<and> distinct (page_requests (snd (get_release_groups w order artist album)))
       \<and> length (page_requests (snd (get_release_groups w order artist album))) =
           nat (max 1 \<lceil>real_of_int N / 100\<rceil>)
       \<and> (1 \<le> N \<longrightarrow>
            int (length (page_requests (snd (get_release_groups w order artist album)))) =
              \<lceil>real_of_int N / 100\<rceil>)
       \<and> (\<forall>groups tr.
            get_release_groups w order artist album = (Returned groups, tr) \<longrightarrow>
            length groups =
              (\<Sum>offset \<leftarrow> 0 # py_range 100 N 100.
                 page_contribution (fst (page_result
                   (fetch_release_groups w artist album offset 100)))))"
proof -
  let ?G = "\<lambda>offset. HttpGet ''https://musicbrainz.org/ws/2/release-group/''
                        (release_group_params artist album offset 100)"
  let ?fetch = "\<lambda>offset. fetch_release_groups w artist album offset 100"
  let ?offsets = "py_range 100 N 100"
  let ?done = "as_completed order ?offsets"
  let ?tr = "snd (get_release_groups w order artist album)"
  note trace = get_release_groups_trace[OF first count, of order]
  have reqs: "page_requests ?tr = map ?G (0 # ?done)"
    by (simp only: trace page_requests_of_pages)
  have ms: "mset (0 # ?done) = mset (0 # ?offsets)"
    by (simp add: as_completed_mset)
  have msr: "mset (page_requests ?tr) = image_mset ?G (mset (0 # ?offsets))"
    by (simp only: reqs mset_map ms)
  have inj: "inj ?G"
    by (auto simp: inj_on_def release_group_params_def)
  have "0 \<notin> set ?offsets" using py_range_lower[of 0 100 N] by auto
  then have "distinct (0 # ?offsets)" by (simp add: py_range_distinct)
  then have "distinct (0 # ?done)"
    using ms mset_eq_imp_distinct_iff by blast
  then have dist: "distinct (page_requests ?tr)"
    unfolding reqs using inj by (simp only: distinct_map) (blast intro: inj_on_subset)
  have "length (page_requests ?tr) = length (0 # ?done)"
    by (simp only: reqs length_map)
  also have "\<dots> = length (0 # ?offsets)"
    using ms by (rule mset_eq_length)
  also have "\<dots> = 1 + nat ((N - 100 + 99) div 100)"
    by (simp add: py_range_length)
  finally have len: "length (page_requests ?tr) = nat (max 1 \<lceil>real_of_int N / 100\<rceil>)"
    by (simp only: pages_count)
  have len1: "int (length (page_requests ?tr)) = \<lceil>real_of_int N / 100\<rceil>" if "1 \<le> N"
  proof -
    have "1 \<le> \<lceil>real_of_int N / 100\<rceil>" using that by (simp add: ceiling_divide_eq_div)
    then show ?thesis using len by simp
  qed
  have merged: "length groups =
              (\<Sum>offset \<leftarrow> 0 # ?offsets. page_contribution (fst (page_result (?fetch offset))))"
    if run: "get_release_groups w order artist album = (Returned groups, tr)" for groups tr
  proof -
    let ?tasks = "map ?fetch ?offsets"
    have p: "page_result (?fetch 0) = (Returned (Some page), tr0)"
      using first by (simp add: page_result_def as_dict_def)
    have N: "get_or j_count 0 (Some page) = N" using count by (simp add: get_or_def)
    from get_release_groups_Returned[OF run p] N obtain results tr' where
      aw: "await_all (map page_result (as_completed order ?tasks)) = (Returned results, tr')" and
      g: "groups = get_or j_release_groups [] (Some page) @
                   concat (map (get_or j_release_groups []) results)" by auto
    from await_all_Returned[OF aw] have
      fs: "map fst (map page_result (as_completed order ?tasks)) = map Returned results"
      by simp
    have first_c: "page_contribution (fst (page_result (?fetch 0))) =
                     length (get_or j_release_groups [] (Some page))"
      by (simp add: p page_contribution_def)
    have "sum_list (map (\<lambda>d. length (get_or j_release_groups [] d)) results) =
          sum_list (map page_contribution (map Returned results))"
      by (simp add: page_contribution_def comp_def)
    also have "\<dots> = sum_mset (image_mset (page_contribution \<circ> fst \<circ> page_result)
                               (mset (as_completed order ?tasks)))"
      by (simp only: fs[symmetric] map_map mset_map sum_mset_sum_list[symmetric] comp_assoc)
    also have "\<dots> = sum_mset (image_mset (page_contribution \<circ> fst \<circ> page_result) (mset ?tasks))"
      by (simp only: as_completed_mset)
    also have "\<dots> = sum_list (map (\<lambda>offset. page_contribution (fst (page_result (?fetch offset))))
                               ?offsets)"
      by (simp only: mset_map[symmetric] sum_mset_sum_list map_map comp_def)
    finally have rest: "sum_list (map (\<lambda>d. length (get_or j_release_groups [] d)) results) =
          sum_list (map (\<lambda>offset. page_contribution (fst (page_result (?fetch offset)))) ?offsets)" .
    show ?thesis
      using rest first_c by (simp add: g length_concat comp_def)
  qed
  from trace reqs msr dist len len1 merged show ?thesis by blast
qed

lemma fetch_release_groups_first_status:
  assumes "catalog_srv w ''https://musicbrainz.org/ws/2/release-group/''
             (release_group_params artist album offset limit) 1 = Responds st body"
    and "st \<noteq> 200"
  shows "fetch_release_groups w artist album offset limit =
     (Returned None,
      [HttpGet ''https://musicbrainz.org/ws/2/release-group/''
         (release_group_params artist album offset limit),
       LogWarning (''Failed to fetch data from '' @
                   ''https://musicbrainz.org/ws/2/release-group/'' @
                   '', status code: '' @ str_nat st)])"
  using fetch_data_first_status[where session="catalog_srv w", OF assms]
  by (simp add: fetch_release_groups_def)

lemma fetch_release_groups_second_ok:
  assumes "catalog_srv w ''https://musicbrainz.org/ws/2/release-group/''
             (release_group_params artist album offset limit) 1 = ConnectionFails"
    and "catalog_srv w ''https://musicbrainz.org/ws/2/release-group/''
             (release_group_params artist album offset limit) 2 = Responds 200 (Some doc)"
  shows "fetch_release_groups w artist album offset limit =
     (Returned (Some doc),
      [HttpGet ''https://musicbrainz.org/ws/2/release-group/''
         (release_group_params artist album offset limit),
       Sleep 1,
       HttpGet ''https://musicbrainz.org/ws/2/release-group/''
         (release_group_params artist album offset limit)])"
  using fetch_data_second_ok[where session="catalog_srv w", OF assms]
  by (simp add: fetch_release_groups_def)

text \<open>
  The claim as stated fails at \<open>N = 0\<close>: the count is learnt from the first page, so one
  request has been made, and \<open>\<lceil>0 / 100\<rceil> = 0\<close>.
\<close>

theorem a_count_of_zero_still_costs_a_request:
  "j_count no_matches = Some 0
   \<and> fetch_release_groups sparse_catalog ''Boards of Canada'' ''Nonesuch'' 0 100 =
       (Returned (Some (Object no_matches)),
        [HttpGet ''https://musicbrainz.org/ws/2/release-group/''
           (release_group_params ''Boards of Canada'' ''Nonesuch'' 0 100)])
   \<and> get_release_groups sparse_catalog [] ''Boards of Canada'' ''Nonesuch'' =
       (Returned [],
        [HttpGet ''https://musicbrainz.org/ws/2/release-group/''
           (release_group_params ''Boards of Canada'' ''Nonesuch'' 0 100)])
   \<and> length (page_requests
         (snd (get_release_groups sparse_catalog [] ''Boards of Canada'' ''Nonesuch''))) = 1
   \<and> int (length (page_requests
         (snd (get_release_groups sparse_catalog [] ''Boards of Canada'' ''Nonesuch'')))) \<noteq>
       \<lceil>real_of_int 0 / 100\<rceil>"
proof -
  have "page_result (fetch_release_groups sparse_catalog ''Boards of Canada'' ''Nonesuch'' 0 100) =
     (Returned (Some no_matches),
      [HttpGet ''https://musicbrainz.org/ws/2/release-group/''
         (release_group_params ''Boards of Canada'' ''Nonesuch'' 0 100)])"
    by (simp add: sparse_nonesuch_page page_result_def as_dict_def)
  from get_release_groups_no_further_page[OF this]
  have g: "get_release_groups sparse_catalog [] ''Boards of Canada'' ''Nonesuch'' =
     (Returned [],
      [HttpGet ''https://musicbrainz.org/ws/2/release-group/''
         (release_group_params ''Boards of Canada'' ''Nonesuch'' 0 100)])"
    by (simp add: get_or_def no_matches_def)
  show ?thesis
    by (simp add: g sparse_nonesuch_page page_requests_def is_get_def no_matches_def)
qed

lemma three_pages_first:
  "fetch_release_groups three_pages ''Boards of Canada'' ''Geogaddi'' 0 100 =
     (Returned (Some (Object \<lparr>j_count = Some 250,
                              j_release_groups = Some [some_group, some_group]\<rparr>)),
      [HttpGet ''https://musicbrainz.org/ws/2/release-group/''
         (release_group_params ''Boards of Canada'' ''Geogaddi'' 0 100)])"
  by (rule fetch_release_groups_first_ok)
     (simp add: three_pages_def geogaddi_def release_group_params_def)

lemma three_pages_second:
  "fetch_release_groups three_pages ''Boards of Canada'' ''Geogaddi'' 100 100 =
     (Returned None,
      [HttpGet ''https://musicbrainz.org/ws/2/release-group/''
         (release_group_params ''Boards of Canada'' ''Geogaddi'' 100 100),
       LogWarning
         ''Failed to fetch data from https://musicbrainz.org/ws/2/release-group/, status code: 503''])"
proof -
  have s: "str_nat 503 = ''503''" by code_simp
  show ?thesis
    by (subst fetch_release_groups_first_status[where st=503 and body=None])
       (simp_all add: three_pages_def geogaddi_def release_group_params_def s)
qed

lemma three_pages_third:
  "fetch_release_groups three_pages ''Boards of Canada'' ''Geogaddi'' 200 100 =
     (Returned (Some (Object \<lparr>j_count = Some 250, j_release_groups = Some [some_group]\<rparr>)),
      [HttpGet ''https://musicbrainz.org/ws/2/release-group/''
         (release_group_params ''Boards of Canada'' ''Geogaddi'' 200 100),
       Sleep 1,
       HttpGet ''https://musicbrainz.org/ws/2/release-group/''
         (release_group_params ''Boards of Canada'' ''Geogaddi'' 200 100)])"
  by (rule fetch_release_groups_second_ok)
     (simp_all add: three_pages_def geogaddi_def release_group_params_def)

lemma three_pages_run:
  "get_release_groups three_pages [1] ''Boards of Canada'' ''Geogaddi'' =
     (Returned [some_group, some_group, some_group],
      [HttpGet ''https://musicbrainz.org/ws/2/release-group/''
         (release_group_params ''Boards of Canada'' ''Geogaddi'' 0 100),
       HttpGet ''https://musicbrainz.org/ws/2/release-group/''
         (release_group_params ''Boards of Canada'' ''Geogaddi'' 200 100),
       Sleep 1,
       HttpGet ''https://musicbrainz.org/ws/2/release-group/''
         (release_group_params ''Boards of Canada'' ''Geogaddi'' 200 100),
       HttpGet ''https://musicbrainz.org/ws/2/release-group/''
         (release_group_params ''Boards of Canada'' ''Geogaddi'' 100 100),
       LogWarning
         ''Failed to fetch data from https://musicbrainz.org/ws/2/release-group/, status code: 503''])"
proof -
  have r: "py_range 100 250 100 = [100, 200]"
    by (simp add: py_range_step py_range_empty)
  show ?thesis
    by (simp add: get_release_groups_def three_pages_first three_pages_second three_pages_third
          get_or_def r Let_def page_result_def as_dict_def)
qed

text \<open>
  250 matches: three page requests, one of them retried after a dropped connection; the
  third page completes before the second, which is answered 503 and contributes nothing;
  three release groups are merged.
\<close>

theorem page_requests_and_merged_count_witness:
  "get_release_groups three_pages [1] ''Boards of Canada'' ''Geogaddi'' =
     (Returned [some_group, some_group, some_group],
      [HttpGet ''https://musicbrainz.org/ws/2/release-group/''
         (release_group_params ''Boards of Canada'' ''Geogaddi'' 0 100),
       HttpGet ''https://musicbrainz.org/ws/2/release-group/''
         (release_group_params ''Boards of Canada'' ''Geogaddi'' 200 100),
       Sleep 1,
       HttpGet ''https://musicbrainz.org/ws/2/release-group/''
         (release_group_params ''Boards of Canada'' ''Geogaddi'' 200 100),
       HttpGet ''https://musicbrainz.org/ws/2/release-group/''
         (release_group_params ''Boards of Canada'' ''Geogaddi'' 100 100),
       LogWarning
         ''Failed to fetch data from https://musicbrainz.org/ws/2/release-group/, status code: 503''])
   \<and> page_requests
         (snd (get_release_groups three_pages [1] ''Boards of Canada'' ''Geogaddi'')) =
       [HttpGet ''https://musicbrainz.org/ws/2/release-group/''
          (release_group_params ''Boards of Canada'' ''Geogaddi'' 0 100),
        HttpGet ''https://musicbrainz.org/ws/2/release-group/''
          (release_group_params ''Boards of Canada'' ''Geogaddi'' 200 100),
        HttpGet ''https://musicbrainz.org/ws/2/release-group/''
          (release_group_params ''Boards of Canada'' ''Geogaddi'' 100 100)]
   \<and> int (length (page_requests
         (snd (get_release_groups three_pages [1] ''Boards of Canada'' ''Geogaddi'')))) =
       \<lceil>real_of_int 250 / 100\<rceil>
   \<and> \<lceil>real_of_int 250 / 100\<rceil> = (3::int)
   \<and> length [some_group, some_group, some_group] =
       page_contribution (Returned (Some \<lparr>j_count = Some 250,
                              j_release_groups = Some [some_group, some_group]\<rparr>)) +
       page_contribution (Returned None) +
       page_contribution (Returned (Some \<lparr>j_count = Some 250,
                              j_release_groups = Some [some_group]\<rparr>))"
proof -
  have c: "j_count \<lparr>j_count = Some 250,
                    j_release_groups = Some [some_group, some_group]\<rparr> = Some 250"
    by simp
  have r: "py_range 100 250 100 = [100, 200]"
    by (simp add: py_range_step py_range_empty)
  have o: "as_completed [1] [100, 200::int] = [200, 100]"
    by (simp add: Let_def)
  have ce: "\<lceil>real_of_int 250 / 100\<rceil> = (3::int)"
    by (simp add: ceiling_divide_eq_div)
  note t = page_requests_and_merged_count[OF three_pages_first c, of "[1]"]
  from t[THEN conjunct2, THEN conjunct1]
  have reqs: "page_requests
         (snd (get_release_groups three_pages [1] ''Boards of Canada'' ''Geogaddi'')) =
       [HttpGet ''https://musicbrainz.org/ws/2/release-group/''
          (release_group_params ''Boards of Canada'' ''Geogaddi'' 0 100),
        HttpGet ''https://musicbrainz.org/ws/2/release-group/''
          (release_group_params ''Boards of Canada'' ''Geogaddi'' 200 100),
        HttpGet ''https://musicbrainz.org/ws/2/release-group/''
          (release_group_params ''Boards of Canada'' ''Geogaddi'' 100 100)]"
    by (simp add: r o)
  from t[THEN conjunct2, THEN conjunct2, THEN conjunct2, THEN conjunct2, THEN conjunct2,
         THEN conjunct1]
  have len: "int (length (page_requests
         (snd (get_release_groups three_pages [1] ''Boards of Canada'' ''Geogaddi'')))) =
       \<lceil>real_of_int 250 / 100\<rceil>"
    by simp
  from t[THEN conjunct2, THEN conjunct2, THEN conjunct2, THEN conjunct2, THEN conjunct2,
         THEN conjunct2, rule_format, OF three_pages_run]
  have "length [some_group, some_group, some_group] =
       page_contribution (Returned (Some \<lparr>j_count = Some 250,
                              j_release_groups = Some [some_group, some_group]\<rparr>)) +
       page_contribution (Returned None) +
       page_contribution (Returned (Some \<lparr>j_count = Some 250,
                              j_release_groups = Some [some_group]\<rparr>))"
    by (simp add: r three_pages_first three_pages_second three_pages_third page_result_def
          as_dict_def)
  with three_pages_run reqs len ce show ?thesis by simp
qed

end
